theory Spec2Isabelle
  imports Complex_Main
begin

text \<open>
  A model of the job pipeline of CodePlanner: the gateway's relaying of job results, the
  queued rate limiter and the retry layer around generation calls, the Redis-backed
  similarity store, and the worker's handling of a failing job. Each function of the
  source becomes a function over an explicit state; what the outside world decides (the
  clock, \<open>Math.random()\<close>, the environment variables, the outcomes of calls to the
  provider and to the broker) is an argument, and so is the rounding of doubles where
  a property depends on it. The definitions come first, the properties after.
\<close>

section \<open>JavaScript numbers\<close>

text \<open>
  A JavaScript number is a double, an infinity or \<open>NaN\<close>. The finite ones are taken as
  reals, and the operations below are exact on them. Where a property depends on how
  doubles round, overflow or underflow, that arithmetic is an argument of the model
  (\<open>js_quotient\<close> here, \<open>searchSimilar_by\<close> in the store). \<open>js_div\<close> is \<open>/\<close> on two
  finite numbers, the divisor never being \<open>-0\<close>.
\<close>

datatype jsnum = Fin real | PosInf | NegInf | NaN

definition js_div :: "real \<Rightarrow> real \<Rightarrow> jsnum" where
  "js_div x y =
     (if y \<noteq> 0 then Fin (x / y)
      else if x = 0 then NaN
      else if 0 < x then PosInf else NegInf)"

fun js_sub :: "jsnum \<Rightarrow> jsnum \<Rightarrow> jsnum" where
  "js_sub (Fin x) (Fin y) = Fin (x - y)"
| "js_sub NaN b = NaN"
| "js_sub a NaN = NaN"
| "js_sub PosInf PosInf = NaN"
| "js_sub NegInf NegInf = NaN"
| "js_sub PosInf b = PosInf"
| "js_sub NegInf b = NegInf"
| "js_sub (Fin x) PosInf = NegInf"
| "js_sub (Fin x) NegInf = PosInf"

text \<open>\<open>v < 0\<close> and \<open>a >= b\<close> on such numbers; both are false as soon as \<open>NaN\<close> is involved.\<close>

fun js_negative :: "jsnum \<Rightarrow> bool" where
  "js_negative (Fin x) = (x < 0)"
| "js_negative NegInf = True"
| "js_negative PosInf = False"
| "js_negative NaN = False"

fun js_ge :: "jsnum \<Rightarrow> jsnum \<Rightarrow> bool" where
  "js_ge (Fin x) (Fin y) = (y \<le> x)"
| "js_ge NaN b = False"
| "js_ge a NaN = False"
| "js_ge PosInf b = True"
| "js_ge a NegInf = True"
| "js_ge NegInf b = False"
| "js_ge a PosInf = False"

text \<open>
  \<open>a < b\<close>, \<open>a + b\<close>, \<open>a * b\<close> and \<open>a / b\<close> on all numbers, and \<open>Math.max\<close>,
  \<open>Math.min\<close> and \<open>Math.floor\<close>. A comparison with \<open>NaN\<close> is false; \<open>NaN\<close>
  in an operand gives \<open>NaN\<close>.
\<close>

fun js_less :: "jsnum \<Rightarrow> jsnum \<Rightarrow> bool" where
  "js_less (Fin x) (Fin y) = (x < y)"
| "js_less NaN b = False"
| "js_less a NaN = False"
| "js_less PosInf b = False"
| "js_less a NegInf = False"
| "js_less NegInf b = True"
| "js_less a PosInf = True"

fun js_add :: "jsnum \<Rightarrow> jsnum \<Rightarrow> jsnum" where
  "js_add (Fin x) (Fin y) = Fin (x + y)"
| "js_add NaN b = NaN"
| "js_add a NaN = NaN"
| "js_add PosInf NegInf = NaN"
| "js_add NegInf PosInf = NaN"
| "js_add PosInf b = PosInf"
| "js_add NegInf b = NegInf"
| "js_add (Fin x) b = b"

fun js_mul :: "jsnum \<Rightarrow> jsnum \<Rightarrow> jsnum" where
  "js_mul (Fin x) (Fin y) = Fin (x * y)"
| "js_mul NaN b = NaN"
| "js_mul a NaN = NaN"
| "js_mul PosInf (Fin y) = (if y = 0 then NaN else if 0 < y then PosInf else NegInf)"
| "js_mul NegInf (Fin y) = (if y = 0 then NaN else if 0 < y then NegInf else PosInf)"
| "js_mul (Fin x) PosInf = (if x = 0 then NaN else if 0 < x then PosInf else NegInf)"
| "js_mul (Fin x) NegInf = (if x = 0 then NaN else if 0 < x then NegInf else PosInf)"
| "js_mul PosInf PosInf = PosInf"
| "js_mul NegInf NegInf = PosInf"
| "js_mul PosInf NegInf = NegInf"
| "js_mul NegInf PosInf = NegInf"

fun js_divide :: "jsnum \<Rightarrow> jsnum \<Rightarrow> jsnum" where
  "js_divide (Fin x) (Fin y) = js_div x y"
| "js_divide NaN b = NaN"
| "js_divide a NaN = NaN"
| "js_divide (Fin x) b = Fin 0"
| "js_divide PosInf (Fin y) = (if 0 \<le> y then PosInf else NegInf)"
| "js_divide NegInf (Fin y) = (if 0 \<le> y then NegInf else PosInf)"
| "js_divide a b = NaN"

fun math_max :: "jsnum \<Rightarrow> jsnum \<Rightarrow> jsnum" where
  "math_max (Fin x) (Fin y) = Fin (max x y)"
| "math_max NaN b = NaN"
| "math_max a NaN = NaN"
| "math_max PosInf b = PosInf"
| "math_max a PosInf = PosInf"
| "math_max NegInf b = b"
| "math_max a NegInf = a"

fun math_min :: "jsnum \<Rightarrow> jsnum \<Rightarrow> jsnum" where
  "math_min (Fin x) (Fin y) = Fin (min x y)"
| "math_min NaN b = NaN"
| "math_min a NaN = NaN"
| "math_min NegInf b = NegInf"
| "math_min a NegInf = NegInf"
| "math_min PosInf b = b"
| "math_min a PosInf = a"

fun math_floor :: "jsnum \<Rightarrow> jsnum" where
  "math_floor (Fin x) = Fin (of_int \<lfloor>x\<rfloor>)"
| "math_floor a = a"

text \<open>
  \<open>a / b\<close> as doubles have it: the quotient of two finite numbers is rounded to a
  double, \<open>rnd\<close> being that rounding. (The one use divides 60000 by a number that is at
  least 1, where the quotient neither overflows nor underflows.)
\<close>

definition js_quotient :: "(real \<Rightarrow> real) \<Rightarrow> jsnum \<Rightarrow> jsnum \<Rightarrow> jsnum" where
  "js_quotient rnd a b = (case js_divide a b of Fin q \<Rightarrow> Fin (rnd q) | v \<Rightarrow> v)"

section \<open>Gateway: relaying job results (packages/gateway/src/server.ts, redis.ts)\<close>

text \<open>
  \<open>ResultMessage\<close> (gateway types): the worker's result envelope. Its \<open>type\<close> field
  is the union \<open>'stream' | 'complete' | 'error'\<close>. \<open>WSMessage\<close> is the client-facing
  message; the gateway builds it with the types \<open>'stream'\<close>, \<open>'response'\<close> and
  \<open>'error'\<close> (the last one in \<open>sendError\<close>).
\<close>

datatype result_type = Stream | Complete | Error

text \<open>
  A payload is opaque to the broker and the gateway. The worker builds two shapes: free
  JSON data (kept as text) and the error payload \<open>{ message, stack? }\<close>.
\<close>

datatype payload = Data string | ErrorData string "string option"

datatype ws_type = WsStream | WsResponse | WsError

record ResultMessage =
  r_jobId :: string
  r_type :: result_type
  r_data :: payload
  r_timestamp :: int

record WSMessage =
  ws_type :: ws_type
  ws_jobId :: string
  ws_data :: payload

text \<open>
  The part of the gateway that \<open>handleJobResult\<close> touches: the channels the Redis
  subscriber client is subscribed to, the socket of the originating connection (open or
  closed) and the messages that were delivered on it, oldest first.
\<close>

record gateway =
  subscribed :: "string set"
  ws_open :: bool
  delivered :: "WSMessage list"

definition results_channel :: "string \<Rightarrow> string" where
  "results_channel jobId = ''results:'' @ jobId"

text \<open>\<open>ws.send\<close>: a message sent on a closed socket is dropped, nothing is thrown.\<close>

definition ws_send :: "gateway \<Rightarrow> WSMessage \<Rightarrow> gateway" where
  "ws_send g m = (if ws_open g then g\<lparr>delivered := delivered g @ [m]\<rparr> else g)"

text \<open>\<open>GatewayRedisClient.subscribeToResults\<close> and \<open>unsubscribeFromResults\<close>.\<close>

definition subscribeToResults :: "gateway \<Rightarrow> string \<Rightarrow> gateway" where
  "subscribeToResults g jobId = g\<lparr>subscribed := insert (results_channel jobId) (subscribed g)\<rparr>"

definition unsubscribeFromResults :: "gateway \<Rightarrow> string \<Rightarrow> gateway" where
  "unsubscribeFromResults g jobId = g\<lparr>subscribed := subscribed g - {results_channel jobId}\<rparr>"

text \<open>
  \<open>CodePlannerGateway.handleJobResult\<close>:
  \<^verbatim>\<open>type: result.type === 'complete' ? 'response' : 'stream'\<close>, then \<open>ws.send\<close>, then
  \<^verbatim>\<open>if (result.type === 'complete') this.redis.unsubscribeFromResults(result.jobId)\<close>.
\<close>

definition translate :: "ResultMessage \<Rightarrow> WSMessage" where
  "translate result =
     \<lparr> ws_type = (if r_type result = Complete then WsResponse else WsStream),
       ws_jobId = r_jobId result,
       ws_data = r_data result \<rparr>"

definition handleJobResult :: "gateway \<Rightarrow> ResultMessage \<Rightarrow> gateway" where
  "handleJobResult g result =
     (let g1 = ws_send g (translate result)
      in if r_type result = Complete then unsubscribeFromResults g1 (r_jobId result) else g1)"

text \<open>A gateway that has just published job \<open>j1\<close> and subscribed to its results.\<close>

definition gateway_waiting :: gateway where
  "gateway_waiting =
     subscribeToResults \<lparr> subscribed = {}, ws_open = True, delivered = [] \<rparr> ''j1''"

definition error_result :: ResultMessage where
  "error_result =
     \<lparr> r_jobId = ''j1'', r_type = Error, r_data = ErrorData ''boom'' None, r_timestamp = 0 \<rparr>"

section \<open>Rate limiter (packages/engine/src/utils/rate-limiter.ts)\<close>

text \<open>
  \<open>RateLimiterOptions\<close>: both fields optional, and the argument itself is optional
  (\<open>options?.requestsPerMinute\<close>). The rate is a JavaScript number, \<open>NaN\<close> and the
  infinities included.
\<close>

record RateLimiterOptions =
  opt_requestsPerMinute :: "jsnum option"
  opt_name :: "string option"

text \<open>
  \<open>QueuedRateLimiter\<close>, over the type \<open>'t\<close> of the queued entries. \<open>timer\<close> says
  whether the interval timer is set; \<open>lastRunAt\<close> holds a \<open>Date.now()\<close> reading, a
  whole number of milliseconds. \<open>dispatched\<close> is not a field of the class: it records,
  oldest first, each task handed to \<open>next.task()\<close> with the two clock readings of the
  tick that dispatched it, the one that passed the elapsed-time test and the one stored
  in \<open>lastRunAt\<close>.
\<close>

record 't QueuedRateLimiter =
  requestsPerMinute :: jsnum
  intervalMs :: jsnum
  l_name :: string
  queue :: "'t list"
  timer :: bool
  isRunning :: bool
  lastRunAt :: "int option"
  dispatched :: "('t \<times> int \<times> int) list"

text \<open>
  \<^verbatim>\<open>process.env.RPM ? Number(process.env.RPM) : 20\<close>; \<open>env_RPM\<close> is \<open>None\<close> when the
  variable is unset or empty, and otherwise the value of \<open>Number(process.env.RPM)\<close>,
  which is \<open>NaN\<close> when the text is not a number.
\<close>

definition default_requestsPerMinute :: "jsnum option \<Rightarrow> jsnum" where
  "default_requestsPerMinute env_RPM = (case env_RPM of Some v \<Rightarrow> v | None \<Rightarrow> Fin 20)"

text \<open>\<^verbatim>\<open>options?.requestsPerMinute ?? (process.env.RPM ? Number(process.env.RPM) : 20)\<close>\<close>

definition configured_requestsPerMinute :: "jsnum option \<Rightarrow> RateLimiterOptions option \<Rightarrow> jsnum" where
  "configured_requestsPerMinute env_RPM options =
     (case Option.bind options opt_requestsPerMinute of
        Some r \<Rightarrow> r
      | None \<Rightarrow> default_requestsPerMinute env_RPM)"

text \<open>
  The constructor: \<open>Math.max(1, ...)\<close>, then \<open>Math.floor(60000 / requestsPerMinute)\<close>,
  the quotient rounded to a double by \<open>rnd\<close>.
\<close>

definition new_QueuedRateLimiter ::
  "(real \<Rightarrow> real) \<Rightarrow> jsnum option \<Rightarrow> RateLimiterOptions option \<Rightarrow> 't QueuedRateLimiter" where
  "new_QueuedRateLimiter rnd env_RPM options =
     \<lparr> requestsPerMinute = math_max (Fin 1) (configured_requestsPerMinute env_RPM options),
       intervalMs = math_floor (js_quotient rnd (Fin 60000)
                      (math_max (Fin 1) (configured_requestsPerMinute env_RPM options))),
       l_name = (case Option.bind options opt_name of
                   Some n \<Rightarrow> n
                 | None \<Rightarrow> ''provider-rate-limiter''),
       queue = [],
       timer = False,
       isRunning = False,
       lastRunAt = None,
       dispatched = [] \<rparr>"

definition start :: "'t QueuedRateLimiter \<Rightarrow> 't QueuedRateLimiter" where
  "start l = (if isRunning l then l else l\<lparr>isRunning := True, timer := True\<rparr>)"

definition stop :: "'t QueuedRateLimiter \<Rightarrow> 't QueuedRateLimiter" where
  "stop l = l\<lparr>timer := False, isRunning := False\<rparr>"

definition schedule :: "'t QueuedRateLimiter \<Rightarrow> 't \<Rightarrow> 't QueuedRateLimiter" where
  "schedule l task = start (l\<lparr>queue := queue l @ [task]\<rparr>)"

text \<open>
  The body of \<open>tick\<close>. It reads the clock twice: \<open>now\<close> for the test
  \<^verbatim>\<open>elapsed < this.intervalMs\<close> and \<open>now2\<close> for \<^verbatim>\<open>this.lastRunAt = Date.now()\<close>.
  It has no \<open>await\<close>, so it runs without interleaving.
\<close>

definition tick :: "'t QueuedRateLimiter \<Rightarrow> int \<Rightarrow> int \<Rightarrow> 't QueuedRateLimiter" where
  "tick l now now2 =
     (case queue l of
        [] \<Rightarrow> stop l
      | next # rest \<Rightarrow>
          if (case lastRunAt l of
                Some lastRun \<Rightarrow> js_less (Fin (of_int (now - lastRun))) (intervalMs l)
              | None \<Rightarrow> False)
          then l
          else l\<lparr>queue := rest, lastRunAt := Some now2,
                 dispatched := dispatched l @ [(next, now, now2)]\<rparr>)"

text \<open>
  What happens to one limiter: a caller schedules a task, or the interval timer fires
  (only while it is set). \<open>run\<close> applies a sequence of such events.
\<close>

datatype 't event = Schedule 't | Tick int int

fun step :: "'t QueuedRateLimiter \<Rightarrow> 't event \<Rightarrow> 't QueuedRateLimiter" where
  "step l (Schedule task) = schedule l task"
| "step l (Tick now now2) = (if timer l then tick l now now2 else l)"

definition run :: "'t QueuedRateLimiter \<Rightarrow> 't event list \<Rightarrow> 't QueuedRateLimiter" where
  "run l evs = foldl step l evs"

text \<open>The tasks submitted by a sequence of events, in submission order.\<close>

fun submitted :: "'t event list \<Rightarrow> 't list" where
  "submitted [] = []"
| "submitted (Schedule task # evs) = task # submitted evs"
| "submitted (Tick now now2 # evs) = submitted evs"

text \<open>
  The clock does not go backwards between the two readings of a tick: the second
  reading is not before the first.
\<close>

fun clock_ok :: "'t event \<Rightarrow> bool" where
  "clock_ok (Schedule task) = True"
| "clock_ok (Tick now now2) = (now \<le> now2)"

text \<open>
  \<open>waited d\<close>: each dispatch after the first passed its test at a reading at least
  \<open>d\<close> after the reading stored by the dispatch before it. \<open>spaced d\<close>: consecutive
  times are at least \<open>d\<close> apart. \<open>started\<close> are the dispatch start times, the
  readings stored in \<open>lastRunAt\<close>.
\<close>

fun waited :: "int \<Rightarrow> ('t \<times> int \<times> int) list \<Rightarrow> bool" where
  "waited d [] = True"
| "waited d [x] = True"
| "waited d ((t1, a1, b1) # (t2, a2, b2) # xs) = (d \<le> a2 - b1 \<and> waited d ((t2, a2, b2) # xs))"

fun spaced :: "int \<Rightarrow> int list \<Rightarrow> bool" where
  "spaced d [] = True"
| "spaced d [t] = True"
| "spaced d (t1 # t2 # ts) = (d \<le> t2 - t1 \<and> spaced d (t2 # ts))"

definition started :: "'t QueuedRateLimiter \<Rightarrow> int list" where
  "started l = map (\<lambda>(t, a, b). b) (dispatched l)"

text \<open>
  The invariant of a limiter whose interval is the whole number \<open>d\<close>: every dispatch
  waited \<open>d\<close>, and \<open>lastRunAt\<close> is the reading stored by the latest dispatch (\<open>null\<close>
  before the first). \<open>readings_ok\<close>: in every dispatch the stored reading is not
  before the tested one.
\<close>

definition limiter_inv :: "int \<Rightarrow> 't QueuedRateLimiter \<Rightarrow> bool" where
  "limiter_inv d l =
     (intervalMs l = Fin (of_int d)
      \<and> waited d (dispatched l)
      \<and> lastRunAt l = (if dispatched l = [] then None
                        else Some (snd (snd (last (dispatched l))))))"

definition readings_ok :: "'t QueuedRateLimiter \<Rightarrow> bool" where
  "readings_ok l = list_all (\<lambda>(t, a, b). a \<le> b) (dispatched l)"

text \<open>The module variable \<open>singleton\<close> and \<open>getRateLimiter\<close>.\<close>

record 't limiter_module =
  singleton :: "'t QueuedRateLimiter option"

definition getRateLimiter ::
  "(real \<Rightarrow> real) \<Rightarrow> jsnum option \<Rightarrow> RateLimiterOptions option \<Rightarrow> 't limiter_module
     \<Rightarrow> 't QueuedRateLimiter \<times> 't limiter_module" where
  "getRateLimiter rnd env_RPM options m =
     (case singleton m of
        None \<Rightarrow> (let l = new_QueuedRateLimiter rnd env_RPM options
                 in (l, m\<lparr>singleton := Some l\<rparr>))
      | Some l \<Rightarrow> (l, m))"

text \<open>
  Schedulers used in examples: the engine's own call (a name only), a rate of 64 and a
  rate of one half. With 64 requests per minute the interval is 937 ms and the timer
  fires every \<open>max 250 (floor (937 / 3)) = 312\<close> ms. \<open>two_tasks\<close>: two tasks queued
  together, and five firings of the timer. \<open>late_second_task\<close>: the second task is
  submitted after the timer has stopped on an empty queue, 937 ms after the start, and
  the timer set by that submission fires 312 ms later. \<open>two_tasks_quick\<close>: two tasks
  and two firings 250 ms apart. The quotients of the examples (60000 / 64, 60000 / 60
  and 60000 / 1) are doubles, so their rounding is the identity.
\<close>

definition planning_options :: "RateLimiterOptions option" where
  "planning_options = Some \<lparr> opt_requestsPerMinute = None, opt_name = Some ''planning'' \<rparr>"

definition rpm64_options :: "RateLimiterOptions option" where
  "rpm64_options = Some \<lparr> opt_requestsPerMinute = Some (Fin 64), opt_name = Some ''planning'' \<rparr>"

definition slow_options :: "RateLimiterOptions option" where
  "slow_options = Some \<lparr> opt_requestsPerMinute = Some (Fin (1 / 2)), opt_name = None \<rparr>"

definition two_tasks :: "string event list" where
  "two_tasks = [Schedule ''a'', Schedule ''b'', Tick 312 312, Tick 624 624,
                Tick 936 936, Tick 1248 1248, Tick 1560 1560]"

definition late_second_task :: "string event list" where
  "late_second_task = [Schedule ''a'', Tick 312 312, Tick 624 624, Schedule ''b'',
                       Tick 1249 1249]"

definition two_tasks_quick :: "string event list" where
  "two_tasks_quick = [Schedule ''a'', Schedule ''b'', Tick 250 250, Tick 500 500]"

section \<open>Retry with backoff (PlanGenerator.withRateLimitRetry and its callers)\<close>

text \<open>
  What the retry layer reads from a caught error: \<open>err.status\<close>, \<open>err.code\<close> (a number
  or a string), \<open>err.message\<close>, the \<open>retry-after\<close> header and the name that
  \<open>toString()\<close> prints when the message is empty. \<open>e_retry_after\<close> is \<open>None\<close> when
  the header is absent or empty, and otherwise the value of \<open>Number(retryAfterHeader)\<close>,
  which is \<open>NaN\<close> when the header is not a number (an HTTP date, say).
\<close>

datatype js_code = CodeNum int | CodeStr string

record api_error =
  e_name :: string
  e_message :: string
  e_status :: "int option"
  e_code :: "js_code option"
  e_retry_after :: "jsnum option"

text \<open>
  What a \<open>catch\<close> receives from the retry layer: an error of the wrapped call, or
  \<open>undefined\<close> (\<open>lastErr\<close> before any call failed).
\<close>

datatype thrown = Undefined | Thrown api_error

text \<open>\<^verbatim>\<open>/429/.test(s)\<close>: the text \<open>p\<close> occurs somewhere in \<open>s\<close>.\<close>

fun has_substring :: "string \<Rightarrow> string \<Rightarrow> bool" where
  "has_substring p [] = (p = [])"
| "has_substring p (c # cs) = (take (length p) (c # cs) = p \<or> has_substring p cs)"

text \<open>\<^verbatim>\<open>err?.status || err?.code\<close>: a status of 0 is falsy and gives way to the code.\<close>

definition status_or_code :: "api_error \<Rightarrow> js_code option" where
  "status_or_code err =
     (case e_status err of
        Some s \<Rightarrow> if s \<noteq> 0 then Some (CodeNum s) else e_code err
      | None \<Rightarrow> e_code err)"

text \<open>\<^verbatim>\<open>status === 429 || /429/.test(String(err?.message ?? ''))\<close>\<close>

definition isRateLimit :: "api_error \<Rightarrow> bool" where
  "isRateLimit err =
     (status_or_code err = Some (CodeNum 429) \<or> has_substring ''429'' (e_message err))"

text \<open>
  The options of \<open>withRateLimitRetry\<close>, whole numbers: the three callers pass none, so
  they are always the defaults.
\<close>

record retry_options =
  retries :: int
  baseDelayMs :: int
  maxDelayMs :: int

definition default_retry_options :: retry_options where
  "default_retry_options = \<lparr> retries = 5, baseDelayMs = 500, maxDelayMs = 8000 \<rparr>"

text \<open>\<^verbatim>\<open>Math.floor(Math.random() * 250)\<close>, for the value \<open>random\<close> of \<open>Math.random()\<close>.\<close>

definition jitter :: "real \<Rightarrow> int" where
  "jitter random = \<lfloor>random * 250\<rfloor>"

text \<open>
  The delay before the next attempt:
  \<^verbatim>\<open>let delay = retryAfterHeader ? Number(retryAfterHeader) * 1000
                               : Math.min(maxDelayMs, baseDelayMs * Math.pow(2, attempt));
  delay = Math.min(maxDelayMs, delay + Math.floor(Math.random() * 250));\<close>
  The result is the number given to \<open>setTimeout\<close>, which waits 0 ms on \<open>NaN\<close> and
  on a negative number.
\<close>

definition retry_delay :: "retry_options \<Rightarrow> api_error \<Rightarrow> nat \<Rightarrow> real \<Rightarrow> jsnum" where
  "retry_delay opts err attempt random =
     (let delay = (case e_retry_after err of
                     Some h \<Rightarrow> js_mul h (Fin 1000)
                   | None \<Rightarrow> math_min (Fin (of_int (maxDelayMs opts)))
                              (Fin (of_int (baseDelayMs opts * 2 ^ attempt))))
      in math_min (Fin (of_int (maxDelayMs opts)))
           (js_add delay (Fin (of_int (jitter random)))))"

text \<open>
  The \<open>while (attempt <= retries)\<close> loop. \<open>fn n\<close> is the outcome of the wrapped call
  at attempt \<open>n\<close> and \<open>rnd n\<close> the value of \<open>Math.random()\<close> drawn after it. The
  result carries the delays that were slept, oldest first; the wrapped call has been
  made once more than that.
\<close>

function retry_loop ::
  "retry_options \<Rightarrow> (nat \<Rightarrow> api_error + 'a) \<Rightarrow> (nat \<Rightarrow> real) \<Rightarrow> nat \<Rightarrow> thrown \<Rightarrow> jsnum list
     \<Rightarrow> (thrown + 'a) \<times> jsnum list" where
  "retry_loop opts fn rnd attempt lastErr slept =
     (if int attempt \<le> retries opts then
        (case fn attempt of
           Inr v \<Rightarrow> (Inr v, slept)
         | Inl err \<Rightarrow>
             if \<not> isRateLimit err \<or> int attempt = retries opts then (Inl (Thrown err), slept)
             else retry_loop opts fn rnd (Suc attempt) (Thrown err)
                    (slept @ [retry_delay opts err attempt (rnd attempt)]))
      else (Inl lastErr, slept))"
  by pat_completeness auto
termination
  by (relation "measure (\<lambda>(opts, fn, rnd, attempt, lastErr, slept).
                           nat (retries opts + 1 - int attempt))") auto

definition withRateLimitRetry ::
  "retry_options \<Rightarrow> (nat \<Rightarrow> api_error + 'a) \<Rightarrow> (nat \<Rightarrow> real) \<Rightarrow> (thrown + 'a) \<times> jsnum list" where
  "withRateLimitRetry opts fn rnd = retry_loop opts fn rnd 0 Undefined []"

text \<open>
  The \<open>catch\<close> of \<open>generatePlan\<close> throws one of two new errors: the rate-limit help
  text, or \<open>Plan generation failed: <message>\<close>.
\<close>

datatype plan_error = RateLimitHelp | PlanGenerationFailed string

text \<open>\<^verbatim>\<open>anyErr.message || anyErr.toString()\<close> for an object, \<open>String(error)\<close> otherwise.\<close>

definition errMsg :: "thrown \<Rightarrow> string" where
  "errMsg t = (case t of
                 Undefined \<Rightarrow> ''undefined''
               | Thrown err \<Rightarrow> if e_message err \<noteq> [] then e_message err else e_name err)"

text \<open>\<^verbatim>\<open>anyErr.code === '429' || anyErr.status === 429 || /429/.test(errMsg)\<close>\<close>

definition is_429 :: "thrown \<Rightarrow> bool" where
  "is_429 t = (case t of
                 Undefined \<Rightarrow> False
               | Thrown err \<Rightarrow> e_code err = Some (CodeStr ''429'') \<or> e_status err = Some 429
                               \<or> has_substring ''429'' (errMsg t))"

text \<open>
  \<open>generatePlan\<close>, from the wrapped completion call on (building the prompt is string
  formatting): the call runs under \<open>withRateLimitRetry\<close> with the default options, and
  the \<open>catch\<close> replaces whatever was thrown.
\<close>

definition generatePlan :: "(nat \<Rightarrow> api_error + 'a) \<Rightarrow> (nat \<Rightarrow> real) \<Rightarrow> plan_error + 'a" where
  "generatePlan fn rnd =
     (case fst (withRateLimitRetry default_retry_options fn rnd) of
        Inr stream \<Rightarrow> Inr stream
      | Inl t \<Rightarrow> Inl (if is_429 t then RateLimitHelp else PlanGenerationFailed (errMsg t)))"

text \<open>
  \<open>generatePlanSummary\<close>: the wrapped call returns the content of the first choice, if
  any; an empty content and every thrown error give the fallback text.
\<close>

definition generatePlanSummary ::
  "(nat \<Rightarrow> api_error + string option) \<Rightarrow> (nat \<Rightarrow> real) \<Rightarrow> plan_error + string" where
  "generatePlanSummary fn rnd =
     (case fst (withRateLimitRetry default_retry_options fn rnd) of
        Inr content \<Rightarrow> (case content of
                          Some c \<Rightarrow> if c \<noteq> [] then Inr c else Inr ''Summary generation failed''
                        | None \<Rightarrow> Inr ''Summary generation failed'')
      | Inl t \<Rightarrow> Inr ''Summary generation failed'')"

text \<open>
  A provider's throttling error; calls that always fail with it; a call whose later
  failures carry a \<open>retry-after\<close> of 2 seconds, one whose failures carry 30 seconds
  and one whose failures carry an HTTP date; and two sources of randomness.
\<close>

definition throttled :: api_error where
  "throttled = \<lparr> e_name = ''Error'', e_message = ''429 Too Many Requests'',
                 e_status = Some 429, e_code = Some (CodeStr ''rate_limit_exceeded''),
                 e_retry_after = None \<rparr>"

definition always_throttled :: "nat \<Rightarrow> api_error + string" where
  "always_throttled n = Inl throttled"

definition summary_throttled :: "nat \<Rightarrow> api_error + string option" where
  "summary_throttled n = Inl throttled"

definition told_to_wait_2s :: "nat \<Rightarrow> api_error + string" where
  "told_to_wait_2s n =
     Inl (if n = 0 then throttled else throttled\<lparr>e_retry_after := Some (Fin 2)\<rparr>)"

definition told_to_wait_30s :: "nat \<Rightarrow> api_error + string" where
  "told_to_wait_30s n = Inl (throttled\<lparr>e_retry_after := Some (Fin 30)\<rparr>)"

definition told_a_date :: "nat \<Rightarrow> api_error + string" where
  "told_a_date n = Inl (throttled\<lparr>e_retry_after := Some NaN\<rparr>)"

definition no_jitter :: "nat \<Rightarrow> real" where
  "no_jitter n = 0"

definition half_jitter :: "nat \<Rightarrow> real" where
  "half_jitter n = 1 / 2"

section \<open>Similarity store (packages/engine/src/vector-store/redis-store.ts)\<close>

text \<open>
  \<open>CodeChunk\<close> as the store reads it. \<open>c_name\<close> and \<open>c_embedding\<close> are optional;
  an embedding is an array of numbers, modelled as a list of reals (floating-point
  rounding is not modelled).
\<close>

record CodeChunk =
  c_id :: string
  c_content :: string
  c_type :: string
  c_filePath :: string
  c_name :: "string option"
  c_embedding :: "real list option"

text \<open>
  The Redis hash written for a chunk. The embedding is stored as \<open>JSON.stringify\<close> of
  the array and read back with \<open>JSON.parse\<close>; the hash keeps the array itself. An
  absent key reads as the empty object, whose \<open>embedding\<close>, \<open>content\<close> and \<open>id\<close>
  are falsy.
\<close>

record chunk_hash =
  h_id :: string
  h_content :: string
  h_type :: string
  h_filePath :: string
  h_name :: string
  h_embedding :: "real list"
  h_createdAt :: int

text \<open>
  The part of Redis the store uses: hashes by key, and sets by key with their members
  in some fixed order (\<open>SMEMBERS\<close> promises none); a set without members is the same
  as no set. I/O failures of the Redis client are not part of this state.
\<close>

record redis =
  hashes :: "string \<Rightarrow> chunk_hash option"
  sets :: "string \<Rightarrow> string list"

definition empty_redis :: redis where
  "empty_redis = \<lparr> hashes = (\<lambda>key. None), sets = (\<lambda>key. []) \<rparr>"

definition hSet :: "redis \<Rightarrow> string \<Rightarrow> chunk_hash \<Rightarrow> redis" where
  "hSet st key h = st\<lparr>hashes := (hashes st)(key := Some h)\<rparr>"

definition hGetAll :: "redis \<Rightarrow> string \<Rightarrow> chunk_hash option" where
  "hGetAll st key = hashes st key"

definition sAdd :: "redis \<Rightarrow> string \<Rightarrow> string \<Rightarrow> redis" where
  "sAdd st key member =
     (if member \<in> set (sets st key) then st
      else st\<lparr>sets := (sets st)(key := sets st key @ [member])\<rparr>)"

definition sMembers :: "redis \<Rightarrow> string \<Rightarrow> string list" where
  "sMembers st key = sets st key"

definition del :: "redis \<Rightarrow> string \<Rightarrow> redis" where
  "del st key = st\<lparr>hashes := (hashes st)(key := None), sets := (sets st)(key := [])\<rparr>"

text \<open>The constructor's configuration: \<open>keyPrefix\<close> and \<open>maxResults\<close> with their defaults.\<close>

record VectorStoreConfig =
  keyPrefix :: string
  maxResults :: int

definition default_config :: VectorStoreConfig where
  "default_config = \<lparr> keyPrefix = ''codeplanner:vectors'', maxResults = 20 \<rparr>"

definition getChunkKey :: "VectorStoreConfig \<Rightarrow> string \<Rightarrow> string \<Rightarrow> string \<Rightarrow> string" where
  "getChunkKey cfg userId projectId chunkId =
     keyPrefix cfg @ '':'' @ userId @ '':'' @ projectId @ '':'' @ chunkId"

definition getProjectIndexKey :: "VectorStoreConfig \<Rightarrow> string \<Rightarrow> string \<Rightarrow> string" where
  "getProjectIndexKey cfg userId projectId =
     keyPrefix cfg @ '':index:'' @ userId @ '':'' @ projectId"

datatype store_error = MissingEmbedding | DimensionMismatch

text \<open>The fields \<open>storeChunk\<close> and \<open>storeChunks\<close> write; \<open>now\<close> is \<open>Date.now()\<close>.\<close>

definition chunk_fields :: "CodeChunk \<Rightarrow> real list \<Rightarrow> int \<Rightarrow> chunk_hash" where
  "chunk_fields chunk embedding now =
     \<lparr> h_id = c_id chunk,
       h_content = c_content chunk,
       h_type = c_type chunk,
       h_filePath = c_filePath chunk,
       h_name = (case c_name chunk of Some n \<Rightarrow> n | None \<Rightarrow> []),
       h_embedding = embedding,
       h_createdAt = now \<rparr>"

definition write_chunk ::
  "VectorStoreConfig \<Rightarrow> int \<Rightarrow> redis \<Rightarrow> string \<Rightarrow> string \<Rightarrow> CodeChunk \<Rightarrow> real list \<Rightarrow> redis" where
  "write_chunk cfg now st userId projectId chunk embedding =
     sAdd (hSet st (getChunkKey cfg userId projectId (c_id chunk))
                   (chunk_fields chunk embedding now))
          (getProjectIndexKey cfg userId projectId) (c_id chunk)"


text \<open>
  \<open>storeChunks\<close>: the loop queues \<open>hSet\<close> and \<open>sAdd\<close> for each chunk, and
  \<^verbatim>\<open>if (!chunk.embedding) { console.warn(...); continue; }\<close> passes over a chunk
  without an embedding; \<open>exec\<close> then runs the queue in order.
\<close>

fun storeChunks ::
  "VectorStoreConfig \<Rightarrow> int \<Rightarrow> redis \<Rightarrow> string \<Rightarrow> string \<Rightarrow> CodeChunk list \<Rightarrow> redis" where
  "storeChunks cfg now st userId projectId [] = st"
| "storeChunks cfg now st userId projectId (chunk # chunks) =
     (case c_embedding chunk of
        None \<Rightarrow> storeChunks cfg now st userId projectId chunks
      | Some embedding \<Rightarrow>
          storeChunks cfg now (write_chunk cfg now st userId projectId chunk embedding)
            userId projectId chunks)"

text \<open>
  \<open>cosineSimilarity\<close>: the three \<open>reduce\<close> calls, \<open>Math.sqrt\<close> and the division; it
  throws \<open>Embeddings must have the same dimension\<close> on arrays of different length.
\<close>

definition dotProduct :: "real list \<Rightarrow> real list \<Rightarrow> real" where
  "dotProduct a b = foldl (\<lambda>sum (val, bi). sum + val * bi) 0 (zip a b)"

definition magnitude :: "real list \<Rightarrow> real" where
  "magnitude a = sqrt (foldl (\<lambda>sum val. sum + val * val) 0 a)"

definition cosineSimilarity :: "real list \<Rightarrow> real list \<Rightarrow> store_error + jsnum" where
  "cosineSimilarity a b =
     (if length a \<noteq> length b then Inl DimensionMismatch
      else Inr (js_div (dotProduct a b) (magnitude a * magnitude b)))"

text \<open>A search result: the chunk read back from its hash, with its similarity.\<close>

record scored_chunk =
  s_id :: string
  s_content :: string
  s_type :: string
  s_filePath :: string
  s_name :: "string option"
  s_embedding :: "real list"
  similarity :: jsnum

definition scored :: "chunk_hash \<Rightarrow> jsnum \<Rightarrow> scored_chunk" where
  "scored h sim =
     \<lparr> s_id = h_id h,
       s_content = h_content h,
       s_type = h_type h,
       s_filePath = h_filePath h,
       s_name = (if h_name h \<noteq> [] then Some (h_name h) else None),
       s_embedding = h_embedding h,
       similarity = sim \<rparr>"

text \<open>
  The loop of \<open>searchSimilar\<close> over the ids of the index: a key without a hash is
  passed over (\<open>if (data.embedding)\<close>), and an exception of \<open>cosineSimilarity\<close> ends
  the search.
\<close>

fun score_chunks ::
  "VectorStoreConfig \<Rightarrow> redis \<Rightarrow> string \<Rightarrow> string \<Rightarrow> real list \<Rightarrow> string list
     \<Rightarrow> store_error + scored_chunk list" where
  "score_chunks cfg st userId projectId queryEmbedding [] = Inr []"
| "score_chunks cfg st userId projectId queryEmbedding (chunkId # chunkIds) =
     (case hGetAll st (getChunkKey cfg userId projectId chunkId) of
        None \<Rightarrow> score_chunks cfg st userId projectId queryEmbedding chunkIds
      | Some h \<Rightarrow>
          (case cosineSimilarity queryEmbedding (h_embedding h) of
             Inl e \<Rightarrow> Inl e
           | Inr sim \<Rightarrow>
               (case score_chunks cfg st userId projectId queryEmbedding chunkIds of
                  Inl e \<Rightarrow> Inl e
                | Inr chunks \<Rightarrow> Inr (scored h sim # chunks))))"

text \<open>
  \<open>Array.prototype.sort\<close> with a comparator. The sort is stable, and for a comparator
  that is a consistent ordering every stable sort gives the same array: here, insertion
  from the left, each element going before the first one that the comparator puts
  strictly after it. A comparator result of \<open>NaN\<close> counts as 0. For an inconsistent
  comparator the language leaves the order to the implementation, and this function
  shows one possible order only.
\<close>

fun insert_sorted :: "('a \<Rightarrow> 'a \<Rightarrow> jsnum) \<Rightarrow> 'a \<Rightarrow> 'a list \<Rightarrow> 'a list" where
  "insert_sorted cmp x [] = [x]"
| "insert_sorted cmp x (y # ys) =
     (if js_negative (cmp x y) then x # y # ys else y # insert_sorted cmp x ys)"

definition array_sort :: "('a \<Rightarrow> 'a \<Rightarrow> jsnum) \<Rightarrow> 'a list \<Rightarrow> 'a list" where
  "array_sort cmp xs = foldl (\<lambda>sorted x. insert_sorted cmp x sorted) [] xs"

text \<open>\<^verbatim>\<open>(a, b) => b.similarity - a.similarity\<close>\<close>

definition by_similarity :: "scored_chunk \<Rightarrow> scored_chunk \<Rightarrow> jsnum" where
  "by_similarity a b = js_sub (similarity b) (similarity a)"

text \<open>\<open>xs.slice(0, end)\<close> for an integer \<open>end\<close>: a negative end counts from the back.\<close>

definition slice0 :: "'a list \<Rightarrow> int \<Rightarrow> 'a list" where
  "slice0 xs e = (if e < 0 then take (nat (int (length xs) + e)) xs else take (nat e) xs)"

definition searchSimilar ::
  "VectorStoreConfig \<Rightarrow> redis \<Rightarrow> string \<Rightarrow> string \<Rightarrow> real list \<Rightarrow> int
     \<Rightarrow> store_error + scored_chunk list" where
  "searchSimilar cfg st userId projectId queryEmbedding limit =
     (let chunkIds = sMembers st (getProjectIndexKey cfg userId projectId)
      in if length chunkIds = 0 then Inr []
         else (case score_chunks cfg st userId projectId queryEmbedding chunkIds of
                 Inl e \<Rightarrow> Inl e
               | Inr chunks \<Rightarrow>
                   Inr (slice0 (array_sort by_similarity chunks)
                          (min limit (maxResults cfg)))))"

text \<open>
  \<open>cosineSimilarity\<close> above divides exactly. The engine computes in doubles, where the
  sums, the square roots and the ratio are rounded and can overflow or underflow.
  So here is the search once more with that arithmetic as an argument: \<open>ratio a b\<close>
  is the number that
  \<^verbatim>\<open>dotProduct / (magnitudeA * magnitudeB)\<close>
  has in the engine for the arrays \<open>a\<close> and \<open>b\<close>, whatever the rounding. The rest
  of \<open>cosineSimilarity\<close>, the loop and \<open>searchSimilar\<close> are as above; \<open>exact_ratio\<close>
  is the exact arithmetic, with which they are the functions above.
\<close>

definition cosineSimilarity_by ::
  "(real list \<Rightarrow> real list \<Rightarrow> jsnum) \<Rightarrow> real list \<Rightarrow> real list \<Rightarrow> store_error + jsnum" where
  "cosineSimilarity_by ratio a b =
     (if length a \<noteq> length b then Inl DimensionMismatch
      else Inr (ratio a b))"

fun score_chunks_by ::
  "(real list \<Rightarrow> real list \<Rightarrow> jsnum) \<Rightarrow> VectorStoreConfig \<Rightarrow> redis \<Rightarrow> string \<Rightarrow> string
     \<Rightarrow> real list \<Rightarrow> string list \<Rightarrow> store_error + scored_chunk list" where
  "score_chunks_by ratio cfg st userId projectId queryEmbedding [] = Inr []"
| "score_chunks_by ratio cfg st userId projectId queryEmbedding (chunkId # chunkIds) =
     (case hGetAll st (getChunkKey cfg userId projectId chunkId) of
        None \<Rightarrow> score_chunks_by ratio cfg st userId projectId queryEmbedding chunkIds
      | Some h \<Rightarrow>
          (case cosineSimilarity_by ratio queryEmbedding (h_embedding h) of
             Inl e \<Rightarrow> Inl e
           | Inr sim \<Rightarrow>
               (case score_chunks_by ratio cfg st userId projectId queryEmbedding chunkIds of
                  Inl e \<Rightarrow> Inl e
                | Inr chunks \<Rightarrow> Inr (scored h sim # chunks))))"

definition searchSimilar_by ::
  "(real list \<Rightarrow> real list \<Rightarrow> jsnum) \<Rightarrow> VectorStoreConfig \<Rightarrow> redis \<Rightarrow> string \<Rightarrow> string
     \<Rightarrow> real list \<Rightarrow> int \<Rightarrow> store_error + scored_chunk list" where
  "searchSimilar_by ratio cfg st userId projectId queryEmbedding limit =
     (let chunkIds = sMembers st (getProjectIndexKey cfg userId projectId)
      in if length chunkIds = 0 then Inr []
         else (case score_chunks_by ratio cfg st userId projectId queryEmbedding chunkIds of
                 Inl e \<Rightarrow> Inl e
               | Inr chunks \<Rightarrow>
                   Inr (slice0 (array_sort by_similarity chunks)
                          (min limit (maxResults cfg)))))"

definition exact_ratio :: "real list \<Rightarrow> real list \<Rightarrow> jsnum" where
  "exact_ratio a b = js_div (dotProduct a b) (magnitude a * magnitude b)"

text \<open>\<open>clearProject\<close>: nothing to do on an empty index; else delete every chunk key, then the index.\<close>

definition clearProject :: "VectorStoreConfig \<Rightarrow> redis \<Rightarrow> string \<Rightarrow> string \<Rightarrow> redis" where
  "clearProject cfg st userId projectId =
     (let indexKey = getProjectIndexKey cfg userId projectId;
          chunkIds = sMembers st indexKey
      in if length chunkIds = 0 then st
         else del (foldl (\<lambda>s chunkId. del s (getChunkKey cfg userId projectId chunkId))
                     st chunkIds)
                  indexKey)"

text \<open>
  \<open>getStats\<close>: \<open>totalChunks\<close> is the size of the index; a chunk counts towards
  \<open>totalSize\<close> and \<open>chunkTypes\<close> only if its hash has a non-empty content.
\<close>

record store_stats =
  totalChunks :: nat
  totalSize :: nat
  chunkTypes :: "string \<Rightarrow> nat option"

fun count_chunks ::
  "VectorStoreConfig \<Rightarrow> redis \<Rightarrow> string \<Rightarrow> string \<Rightarrow> string list
     \<Rightarrow> nat \<times> (string \<Rightarrow> nat option) \<Rightarrow> nat \<times> (string \<Rightarrow> nat option)" where
  "count_chunks cfg st userId projectId [] acc = acc"
| "count_chunks cfg st userId projectId (chunkId # chunkIds) (sz, types) =
     (case hGetAll st (getChunkKey cfg userId projectId chunkId) of
        None \<Rightarrow> count_chunks cfg st userId projectId chunkIds (sz, types)
      | Some h \<Rightarrow>
          if h_content h \<noteq> []
          then count_chunks cfg st userId projectId chunkIds
                 (sz + length (h_content h),
                  types(h_type h := Some ((case types (h_type h) of Some n \<Rightarrow> n | None \<Rightarrow> 0) + 1)))
          else count_chunks cfg st userId projectId chunkIds (sz, types))"

definition getStats :: "VectorStoreConfig \<Rightarrow> redis \<Rightarrow> string \<Rightarrow> string \<Rightarrow> store_stats" where
  "getStats cfg st userId projectId =
     (let chunkIds = sMembers st (getProjectIndexKey cfg userId projectId);
          counted = count_chunks cfg st userId projectId chunkIds (0, (\<lambda>t. None))
      in \<lparr> totalChunks = length chunkIds, totalSize = fst counted, chunkTypes = snd counted \<rparr>)"

text \<open>
  Names used to state the store's properties. \<open>spec_cosine\<close> is the specification's
  formula, dot(a,b) / (|a| . |b|), written with sums. \<open>indexed_hashes\<close> are the hashes
  of the chunks registered in a project's index, in index order: the chunks a search
  looks at, and \<open>scored_by ratio q h\<close> is such a chunk with the score that the
  arithmetic \<open>ratio\<close> gives it for the query \<open>q\<close>. \<open>ranked a b\<close> says that \<open>a\<close>
  may stand before \<open>b\<close> in a ranking by non-increasing similarity; it is false as
  soon as a score is \<open>NaN\<close>. \<open>stored_by chunks cid\<close> are the chunks of a batch that
  write the hash of id \<open>cid\<close>.
\<close>

definition spec_cosine :: "real list \<Rightarrow> real list \<Rightarrow> real" where
  "spec_cosine a b =
     (\<Sum>(x, y) \<leftarrow> zip a b. x * y) / (sqrt (\<Sum>x \<leftarrow> a. x * x) * sqrt (\<Sum>y \<leftarrow> b. y * y))"

definition indexed_hashes ::
  "VectorStoreConfig \<Rightarrow> redis \<Rightarrow> string \<Rightarrow> string \<Rightarrow> chunk_hash list" where
  "indexed_hashes cfg st userId projectId =
     List.map_filter (\<lambda>chunkId. hGetAll st (getChunkKey cfg userId projectId chunkId))
       (sMembers st (getProjectIndexKey cfg userId projectId))"

definition scored_by ::
  "(real list \<Rightarrow> real list \<Rightarrow> jsnum) \<Rightarrow> real list \<Rightarrow> chunk_hash \<Rightarrow> scored_chunk" where
  "scored_by ratio q h = scored h (ratio q (h_embedding h))"

definition ranked :: "scored_chunk \<Rightarrow> scored_chunk \<Rightarrow> bool" where
  "ranked a b = js_ge (similarity a) (similarity b)"

definition numeric_score :: "scored_chunk \<Rightarrow> bool" where
  "numeric_score r = (similarity r \<noteq> NaN)"


text \<open>
  Example data: a chunk with a given id and embedding, the same without embedding, a
  project of three chunks with unit embeddings, and a project of 21 chunks.
\<close>

definition chunk_with :: "string \<Rightarrow> real list \<Rightarrow> CodeChunk" where
  "chunk_with cid v =
     \<lparr> c_id = cid, c_content = ''function f() {}'', c_type = ''function'',
       c_filePath = ''src/f.ts'', c_name = Some ''f'', c_embedding = Some v \<rparr>"


definition three_chunks :: "CodeChunk list" where
  "three_chunks = [chunk_with ''a'' [1, 0], chunk_with ''b'' [0, 1], chunk_with ''c'' [3 / 5, 4 / 5]]"

definition store3 :: redis where
  "store3 = storeChunks default_config 0 empty_redis ''user1'' ''project1'' three_chunks"

definition ids21 :: "string list" where
  "ids21 = [''c01'', ''c02'', ''c03'', ''c04'', ''c05'', ''c06'', ''c07'', ''c08'', ''c09'',
            ''c10'', ''c11'', ''c12'', ''c13'', ''c14'', ''c15'', ''c16'', ''c17'', ''c18'',
            ''c19'', ''c20'', ''c21'']"

definition store21 :: redis where
  "store21 = storeChunks default_config 0 empty_redis ''user1'' ''project1''
               (map (\<lambda>cid. chunk_with cid [1]) ids21)"

section \<open>Worker (engine worker process: processJob and the publish helpers)\<close>

text \<open>\<open>JobMessage\<close>; \<open>command\<close> is any string, and \<open>data\<close> is opaque here.\<close>

record JobMessage =
  j_jobId :: string
  j_connectionId :: string
  j_userId :: string
  j_projectId :: string
  j_command :: string
  j_data :: string

text \<open>
  What a \<open>catch\<close> clause of the worker can receive: \<open>null\<close> or \<open>undefined\<close>, or a
  value whose \<open>message\<close> and \<open>stack\<close> can be read (an \<open>Error\<close>; for any other value
  both are absent, the message reading as empty).
\<close>

record js_error =
  err_message :: string
  err_stack :: "string option"

datatype thrown_value = Nullish | ErrorObject js_error

text \<open>
  What the collaborators of a handler (parser, embedding and generation services, the
  store) make it do: the handler publishes the payloads \<open>emits\<close> as \<open>stream\<close> results,
  in order; then an exception \<open>ending\<close> leaves the handler, which rethrows it, or the
  handler publishes one \<open>complete\<close> result with the payload \<open>final\<close> and returns.
\<close>

record script =
  emits :: "payload list"
  ending :: "thrown_value option"
  final :: payload

text \<open>
  The environment of the worker: whether the broker accepts the \<open>n\<close>-th call of
  \<open>redis.publish\<close> (otherwise the call throws), the \<open>Date.now()\<close> reading at that call,
  the stack text that \<open>new Error(message)\<close> captures in \<open>processJob\<close>, the
  \<open>TypeError\<close> that the runtime raises on reading a property of \<open>null\<close> or
  \<open>undefined\<close>, and the run of each handler on a job.
\<close>

record worker_env =
  broker_ok :: "nat \<Rightarrow> bool"
  clock :: "nat \<Rightarrow> int"
  stack_trace :: "string \<Rightarrow> string"
  type_error :: js_error
  index_run :: "JobMessage \<Rightarrow> script"
  plan_run :: "JobMessage \<Rightarrow> script"
  analysis_run :: "JobMessage \<Rightarrow> script"

text \<open>
  The worker's calls of \<open>redis.publish\<close>, oldest first: whether the broker accepted the
  call, the channel and the message. \<open>published\<close> keeps the accepted ones.
\<close>

record worker =
  outbox :: "(bool \<times> string \<times> ResultMessage) list"

definition published :: "worker \<Rightarrow> (string \<times> ResultMessage) list" where
  "published w = map snd (filter fst (outbox w))"

text \<open>
  \<open>publishResult\<close>: one call of \<open>redis.publish\<close> on \<open>results:<jobId>\<close>; when the call
  throws, the \<open>catch\<close> logs and returns, so \<open>publishResult\<close> itself never throws.
\<close>

definition publishResult ::
  "worker_env \<Rightarrow> worker \<Rightarrow> string \<Rightarrow> result_type \<Rightarrow> payload \<Rightarrow> worker" where
  "publishResult env w jobId type data =
     w\<lparr>outbox := outbox w @
          [(broker_ok env (length (outbox w)),
            results_channel jobId,
            \<lparr> r_jobId = jobId, r_type = type, r_data = data,
              r_timestamp = clock env (length (outbox w)) \<rparr>)]\<rparr>"

definition publishProgress :: "worker_env \<Rightarrow> worker \<Rightarrow> string \<Rightarrow> payload \<Rightarrow> worker" where
  "publishProgress env w jobId progress = publishResult env w jobId Stream progress"

text \<open>
  \<open>publishError\<close>: \<^verbatim>\<open>message: error.message || 'Unknown error occurred', stack:
  error.stack\<close>. Reading \<open>error.message\<close> throws when \<open>error\<close> is \<open>null\<close> or
  \<open>undefined\<close>. The result is the exception that leaves the function, if any, and the
  worker.
\<close>

definition publishError ::
  "worker_env \<Rightarrow> worker \<Rightarrow> string \<Rightarrow> thrown_value \<Rightarrow> thrown_value option \<times> worker" where
  "publishError env w jobId error =
     (case error of
        Nullish \<Rightarrow> (Some (ErrorObject (type_error env)), w)
      | ErrorObject e \<Rightarrow>
          (None,
           publishResult env w jobId Error
             (ErrorData (if err_message e \<noteq> [] then err_message e
                         else ''Unknown error occurred'')
                        (err_stack e))))"

definition run_handler ::
  "worker_env \<Rightarrow> worker \<Rightarrow> JobMessage \<Rightarrow> script \<Rightarrow> thrown_value option \<times> worker" where
  "run_handler env w job s =
     (let w1 = foldl (\<lambda>w' d. publishResult env w' (j_jobId job) Stream d) w (emits s)
      in case ending s of
           Some t \<Rightarrow> (Some t, w1)
         | None \<Rightarrow> (None, publishResult env w1 (j_jobId job) Complete (final s)))"

definition handleIndex ::
  "worker_env \<Rightarrow> worker \<Rightarrow> JobMessage \<Rightarrow> thrown_value option \<times> worker" where
  "handleIndex env w job = run_handler env w job (index_run env job)"

definition handlePlan ::
  "worker_env \<Rightarrow> worker \<Rightarrow> JobMessage \<Rightarrow> thrown_value option \<times> worker" where
  "handlePlan env w job = run_handler env w job (plan_run env job)"

definition handleErrorAnalysis ::
  "worker_env \<Rightarrow> worker \<Rightarrow> JobMessage \<Rightarrow> thrown_value option \<times> worker" where
  "handleErrorAnalysis env w job = run_handler env w job (analysis_run env job)"

text \<open>
  The \<open>switch\<close> of \<open>processJob\<close>, with \<^verbatim>\<open>throw new Error(`Unknown command:
  ${job.command}`)\<close> as its default, and \<open>processJob\<close>: the \<open>try\<close> around the
  switch, whose \<open>catch\<close> calls \<open>publishError\<close>.
\<close>

definition dispatch ::
  "worker_env \<Rightarrow> worker \<Rightarrow> JobMessage \<Rightarrow> thrown_value option \<times> worker" where
  "dispatch env w job =
     (if j_command job = ''index'' then handleIndex env w job
      else if j_command job = ''plan'' then handlePlan env w job
      else if j_command job = ''analyze-error'' then handleErrorAnalysis env w job
      else (Some (ErrorObject
                    \<lparr> err_message = ''Unknown command: '' @ j_command job,
                      err_stack = Some (stack_trace env (''Unknown command: '' @ j_command job)) \<rparr>),
            w))"

definition processJob ::
  "worker_env \<Rightarrow> worker \<Rightarrow> JobMessage \<Rightarrow> thrown_value option \<times> worker" where
  "processJob env w job =
     (case dispatch env w job of
        (None, w1) \<Rightarrow> (None, w1)
      | (Some error, w1) \<Rightarrow> publishError env w1 (j_jobId job) error)"

text \<open>
  The callback subscribed to \<open>jobs:pending\<close>: a message that does not parse
  (\<open>None\<close>) and an exception leaving \<open>processJob\<close> are logged, and the callback
  returns. \<open>worker_run\<close> is the worker receiving a sequence of messages, one job after
  the other.
\<close>

definition on_message :: "worker_env \<Rightarrow> worker \<Rightarrow> JobMessage option \<Rightarrow> worker" where
  "on_message env w message =
     (case message of
        None \<Rightarrow> w
      | Some job \<Rightarrow> snd (processJob env w job))"

definition worker_run :: "worker_env \<Rightarrow> worker \<Rightarrow> JobMessage option list \<Rightarrow> worker" where
  "worker_run env w messages = foldl (on_message env) w messages"

text \<open>The calls of \<open>redis.publish\<close> that carry an \<open>error\<close> result for a job.\<close>

definition error_results :: "string \<Rightarrow> (bool \<times> string \<times> ResultMessage) list
                               \<Rightarrow> (bool \<times> string \<times> ResultMessage) list" where
  "error_results jobId calls =
     filter (\<lambda>(ok, channel, m). r_type m = Error \<and> r_jobId m = jobId
                                 \<and> channel = results_channel jobId) calls"

text \<open>
  Example: a job with a command the worker does not know, a job whose analysis throws
  after one streamed chunk, a broker that accepts every publish and one that accepts
  none. The stack text of the example is its first line only.
\<close>

definition job_unknown :: JobMessage where
  "job_unknown = \<lparr> j_jobId = ''j1'', j_connectionId = ''c1'', j_userId = ''user1'',
                   j_projectId = ''project1'', j_command = ''deploy'', j_data = [] \<rparr>"

definition job_analyze :: JobMessage where
  "job_analyze = job_unknown\<lparr>j_jobId := ''j2'', j_command := ''analyze-error''\<rparr>"

definition failing_script :: script where
  "failing_script =
     \<lparr> emits = [Data ''step 1''],
       ending = Some (ErrorObject \<lparr> err_message = ''Failed to parse error input'',
                                    err_stack = Some ''Error: Failed to parse error input'' \<rparr>),
       final = Data ''complete'' \<rparr>"

definition env_up :: worker_env where
  "env_up = \<lparr> broker_ok = (\<lambda>n. True), clock = (\<lambda>n. int n),
              stack_trace = (\<lambda>message. ''Error: '' @ message),
              type_error = \<lparr> err_message = ''null is not an object'',
                             err_stack = Some ''TypeError: null is not an object'' \<rparr>,
              index_run = (\<lambda>job. failing_script), plan_run = (\<lambda>job. failing_script),
              analysis_run = (\<lambda>job. failing_script) \<rparr>"

definition env_down :: worker_env where
  "env_down = env_up\<lparr>broker_ok := (\<lambda>n. False)\<rparr>"

definition idle_worker :: worker where
  "idle_worker = \<lparr> outbox = [] \<rparr>"

section \<open>Gateway: what the code does with each kind of result\<close>

lemma translate_stream: "r_type result = Stream \<Longrightarrow> ws_type (translate result) = WsStream"
  by (simp add: translate_def)

lemma translate_complete: "r_type result = Complete \<Longrightarrow> ws_type (translate result) = WsResponse"
  by (simp add: translate_def)

text \<open>
  Claim C5. A \<open>stream\<close> result is relayed as \<open>stream\<close> and a \<open>complete\<close> result as
  \<open>response\<close>, but an \<open>error\<close> result is not relayed as \<open>error\<close>: the conditional knows
  only \<open>complete\<close>, so the error result for job \<open>j1\<close> reaches the client as a
  \<open>stream\<close> message.
\<close>

theorem C5_error_result_relayed_as_stream:
  "ws_type (translate error_result) = WsStream
   \<and> delivered (handleJobResult gateway_waiting error_result)
       = [\<lparr> ws_type = WsStream, ws_jobId = ''j1'', ws_data = ErrorData ''boom'' None \<rparr>]"
  by (simp add: translate_def handleJobResult_def gateway_waiting_def error_result_def
      ws_send_def subscribeToResults_def)

text \<open>
  Claim C6. A \<open>complete\<close> result ends the subscription to \<open>results:<jobId>\<close>; an
  \<open>error\<close> result, which is terminal too, does not: after the error result for job
  \<open>j1\<close> the gateway is still subscribed to \<open>results:j1\<close>.
\<close>

theorem C6_error_result_keeps_subscription:
  "results_channel ''j1'' \<in> subscribed gateway_waiting
   \<and> results_channel ''j1'' \<in> subscribed (handleJobResult gateway_waiting error_result)
   \<and> results_channel ''j1''
       \<notin> subscribed (handleJobResult gateway_waiting (error_result\<lparr>r_type := Complete\<rparr>))"
  by (simp add: handleJobResult_def gateway_waiting_def error_result_def
      ws_send_def subscribeToResults_def unsubscribeFromResults_def)

section \<open>Rate limiter: pacing, order and the shared instance\<close>

lemma waited_snoc:
  "waited d (xs @ [(t, a, b)])
     = (waited d xs \<and> (xs = [] \<or> d \<le> a - snd (snd (last xs))))"
  by (induction d xs rule: waited.induct) auto

lemma spaced_snoc:
  "spaced d (ts @ [t]) = (spaced d ts \<and> (ts = [] \<or> d \<le> t - last ts))"
  by (induction d ts rule: spaced.induct) auto

lemma limiter_inv_step: "limiter_inv d l \<Longrightarrow> limiter_inv d (step l ev)"
  by (cases ev)
    (auto simp: limiter_inv_def schedule_def start_def tick_def stop_def waited_snoc
      split: list.splits option.splits)

lemma readings_ok_step: "readings_ok l \<Longrightarrow> clock_ok ev \<Longrightarrow> readings_ok (step l ev)"
  by (cases ev)
    (auto simp: readings_ok_def schedule_def start_def tick_def stop_def split: list.splits)

lemma config_step:
  "intervalMs (step l ev) = intervalMs l \<and> requestsPerMinute (step l ev) = requestsPerMinute l"
  by (cases ev) (auto simp: schedule_def start_def tick_def stop_def split: list.splits)

lemma limiter_inv_run: "limiter_inv d l \<Longrightarrow> limiter_inv d (run l evs)"
  unfolding run_def by (induction evs arbitrary: l) (auto simp: limiter_inv_step)

lemma readings_ok_run: "readings_ok l \<Longrightarrow> list_all clock_ok evs \<Longrightarrow> readings_ok (run l evs)"
  unfolding run_def by (induction evs arbitrary: l) (auto simp: readings_ok_step)

lemma config_run:
  "intervalMs (run l evs) = intervalMs l \<and> requestsPerMinute (run l evs) = requestsPerMinute l"
  unfolding run_def by (induction evs arbitrary: l) (auto simp: config_step)

lemma fifo_step:
  "map fst (dispatched (step l ev)) @ queue (step l ev)
     = map fst (dispatched l) @ queue l @ submitted [ev]"
  by (cases ev) (auto simp: schedule_def start_def tick_def stop_def split: list.splits)

lemma fifo_run:
  "map fst (dispatched (run l evs)) @ queue (run l evs)
     = map fst (dispatched l) @ queue l @ submitted evs"
proof (induction evs arbitrary: l)
  case Nil
  then show ?case by (simp add: run_def)
next
  case (Cons ev evs)
  have "run l (ev # evs) = run (step l ev) evs" by (simp add: run_def)
  then show ?case using Cons[of "step l ev"] fifo_step[of l ev]
    by (cases ev) simp_all
qed

lemma waited_spaced:
  "waited d xs \<Longrightarrow> list_all (\<lambda>(t, a, b). a \<le> b) xs \<Longrightarrow> spaced d (map (\<lambda>(t, a, b). b) xs)"
  by (induction d xs rule: waited.induct) auto

text \<open>A rate that is a real number is at least 1, and the interval is the floor of the quotient.\<close>

lemma numeric_rate:
  assumes "requestsPerMinute (new_QueuedRateLimiter rnd env_RPM options :: 't QueuedRateLimiter) = Fin r"
  shows "1 \<le> r
         \<and> intervalMs (new_QueuedRateLimiter rnd env_RPM options :: 't QueuedRateLimiter)
             = Fin (of_int \<lfloor>rnd (60000 / r)\<rfloor>)"
proof (cases "configured_requestsPerMinute env_RPM options")
  case (Fin x)
  with assms have r: "r = max 1 x" by (simp add: new_QueuedRateLimiter_def)
  then have "r \<noteq> 0" by linarith
  with Fin r show ?thesis by (simp add: new_QueuedRateLimiter_def js_quotient_def js_div_def)
next
  case PosInf
  with assms show ?thesis by (simp add: new_QueuedRateLimiter_def)
next
  case NegInf
  with assms show ?thesis by (simp add: new_QueuedRateLimiter_def js_quotient_def js_div_def)
next
  case NaN
  with assms show ?thesis by (simp add: new_QueuedRateLimiter_def)
qed

text \<open>
  Claim C3, as the code has it. Take a scheduler whose rate \<open>requestsPerMinute\<close>, the
  configured rate raised to at least 1, is a real number \<open>r\<close> (not \<open>NaN\<close>, not
  infinite), and any sequence of submissions and timer ticks. Let \<open>d\<close> be the floor of
  the quotient \<open>60000 / r\<close> as doubles have it. Each task after the first is dispatched
  only by a tick whose clock reading is at least \<open>d\<close> ms after the reading stored in
  \<open>lastRunAt\<close> by the dispatch before it. So, if the clock does not go backwards
  between the two readings of a tick, consecutive dispatch start times are at least
  \<open>d\<close> ms apart. And the tasks dispatched so far followed by the tasks still queued
  are exactly the tasks submitted, in submission order.
\<close>

theorem C3_dispatch_spacing_and_fifo:
  fixes l0 :: "'t QueuedRateLimiter"
  assumes "l0 = new_QueuedRateLimiter rnd env_RPM options"
      and "requestsPerMinute l0 = Fin r"
  shows "1 \<le> r
         \<and> waited \<lfloor>rnd (60000 / r)\<rfloor> (dispatched (run l0 evs))
         \<and> (list_all clock_ok evs \<longrightarrow> spaced \<lfloor>rnd (60000 / r)\<rfloor> (started (run l0 evs)))
         \<and> map fst (dispatched (run l0 evs)) @ queue (run l0 evs) = submitted evs"
proof -
  have rq: "requestsPerMinute (new_QueuedRateLimiter rnd env_RPM options :: 't QueuedRateLimiter)
              = Fin r"
    using assms by simp
  from numeric_rate[OF rq] assms(1)
  have r: "1 \<le> r" and i: "intervalMs l0 = Fin (of_int \<lfloor>rnd (60000 / r)\<rfloor>)" by simp_all
  have "limiter_inv \<lfloor>rnd (60000 / r)\<rfloor> l0"
    using i assms(1) by (simp add: limiter_inv_def new_QueuedRateLimiter_def)
  then have inv: "limiter_inv \<lfloor>rnd (60000 / r)\<rfloor> (run l0 evs)" by (rule limiter_inv_run)
  then have w: "waited \<lfloor>rnd (60000 / r)\<rfloor> (dispatched (run l0 evs))"
    by (simp add: limiter_inv_def)
  have s: "spaced \<lfloor>rnd (60000 / r)\<rfloor> (started (run l0 evs))" if "list_all clock_ok evs"
  proof -
    have "readings_ok l0" using assms(1) by (simp add: readings_ok_def new_QueuedRateLimiter_def)
    from readings_ok_run[OF this that] w show ?thesis
      unfolding started_def readings_ok_def by (rule waited_spaced[rotated])
  qed
  have f: "map fst (dispatched (run l0 evs)) @ queue (run l0 evs) = submitted evs"
    using fifo_run[of l0 evs] assms(1) by (simp add: new_QueuedRateLimiter_def)
  from r w s f show ?thesis by blast
qed

theorem C3_dispatch_spacing_and_fifo_witness:
  "requestsPerMinute (new_QueuedRateLimiter (\<lambda>x. x) None rpm64_options :: string QueuedRateLimiter)
     = Fin 64
   \<and> list_all clock_ok two_tasks
   \<and> \<lfloor>60000 / (64 :: real)\<rfloor> = 937
   \<and> dispatched (run (new_QueuedRateLimiter (\<lambda>x. x) None rpm64_options) two_tasks)
       = [(''a'', 312, 312), (''b'', 1560, 1560)]
   \<and> waited 937 (dispatched (run (new_QueuedRateLimiter (\<lambda>x. x) None rpm64_options) two_tasks))
   \<and> spaced 937 (started (run (new_QueuedRateLimiter (\<lambda>x. x) None rpm64_options) two_tasks))
   \<and> map fst (dispatched (run (new_QueuedRateLimiter (\<lambda>x. x) None rpm64_options) two_tasks))
       @ queue (run (new_QueuedRateLimiter (\<lambda>x. x) None rpm64_options) two_tasks)
       = [''a'', ''b'']"
proof -
  have h1: "requestsPerMinute
              (new_QueuedRateLimiter (\<lambda>x. x) None rpm64_options :: string QueuedRateLimiter)
              = Fin 64"
    by (simp add: new_QueuedRateLimiter_def configured_requestsPerMinute_def rpm64_options_def)
  have h2: "list_all clock_ok two_tasks" by (simp add: two_tasks_def)
  have fl: "\<lfloor>60000 / (64 :: real)\<rfloor> = 937" by simp
  have sub: "submitted two_tasks = [''a'', ''b'']" by (simp add: two_tasks_def)
  have d: "dispatched (run (new_QueuedRateLimiter (\<lambda>x. x) None rpm64_options) two_tasks)
             = [(''a'', 312, 312), (''b'', 1560, 1560)]"
    by (simp add: run_def two_tasks_def rpm64_options_def new_QueuedRateLimiter_def
        configured_requestsPerMinute_def js_quotient_def js_div_def schedule_def start_def
        tick_def stop_def)
  show ?thesis
    using h1 h2 fl sub d
      C3_dispatch_spacing_and_fifo [where rnd = "\<lambda>x. x" and evs = two_tasks, OF refl h1]
    by simp
qed

text \<open>
  With 64 requests per minute the interval is \<open>floor (60000 / 64) = 937\<close> ms. The first
  task starts at 312; the timer then stops on the empty queue. The second task is
  submitted at 937 and starts when the new timer first fires, at 1249: that is 937 ms
  after the first start, which is less than \<open>60000 / 64 = 937.5\<close>.
\<close>

theorem C3_spacing_below_quotient:
  "dispatched (run (new_QueuedRateLimiter (\<lambda>x. x) None rpm64_options) late_second_task)
     = [(''a'', 312, 312), (''b'', 1249, 1249)]
   \<and> requestsPerMinute
         (new_QueuedRateLimiter (\<lambda>x. x) None rpm64_options :: string QueuedRateLimiter)
       = Fin 64
   \<and> real_of_int (1249 - 312) < 60000 / 64"
  by (simp add: run_def late_second_task_def rpm64_options_def new_QueuedRateLimiter_def
      configured_requestsPerMinute_def js_quotient_def js_div_def schedule_def start_def
      tick_def stop_def)

text \<open>
  A rate that is not a number is outside these properties: with \<open>RPM=abc\<close> the rate
  and the interval are \<open>NaN\<close>, the test \<open>elapsed < intervalMs\<close> never holds a task
  back, and two queued tasks start at consecutive ticks.
\<close>

lemma nan_rate_never_waits:
  "requestsPerMinute
     (new_QueuedRateLimiter rnd (Some NaN) planning_options :: string QueuedRateLimiter) = NaN
   \<and> intervalMs
       (new_QueuedRateLimiter rnd (Some NaN) planning_options :: string QueuedRateLimiter) = NaN
   \<and> dispatched (run (new_QueuedRateLimiter rnd (Some NaN) planning_options) two_tasks_quick)
       = [(''a'', 250, 250), (''b'', 500, 500)]"
  by (simp add: run_def two_tasks_quick_def planning_options_def new_QueuedRateLimiter_def
      configured_requestsPerMinute_def default_requestsPerMinute_def js_quotient_def
      schedule_def start_def tick_def stop_def)

text \<open>
  Claim C10, as the code has it. The first call of \<open>getRateLimiter\<close> builds the limiter
  from its own options; whatever the limiter has done since (\<open>evs\<close>), every later call
  returns that same limiter and leaves the module unchanged, whatever options and
  environment it is given, and the rate and the interval of the limiter never change.
  The configured rate is the first caller's \<open>requestsPerMinute\<close>, or, when the first
  caller gives none, the \<open>RPM\<close> environment variable, or 20 when that is unset; when it
  is a real number \<open>x\<close>, the rate is \<open>max 1 x\<close> and the interval is the floor of the
  quotient \<open>60000 / max 1 x\<close> as doubles have it.
\<close>

theorem C10_singleton_fixed_by_first_call:
  fixes l1 :: "'t QueuedRateLimiter"
  shows "getRateLimiter rnd env_RPM options (\<lparr> singleton = None \<rparr> :: 't limiter_module)
           = (new_QueuedRateLimiter rnd env_RPM options,
              \<lparr> singleton = Some (new_QueuedRateLimiter rnd env_RPM options) \<rparr>)
         \<and> getRateLimiter rnd' env_RPM' options' \<lparr> singleton = Some l1 \<rparr>
             = (l1, \<lparr> singleton = Some l1 \<rparr>)
         \<and> requestsPerMinute (run l1 evs) = requestsPerMinute l1
         \<and> intervalMs (run l1 evs) = intervalMs l1
         \<and> configured_requestsPerMinute env_RPM options
             = (case Option.bind options opt_requestsPerMinute of
                  Some v \<Rightarrow> v
                | None \<Rightarrow> (case env_RPM of Some v \<Rightarrow> v | None \<Rightarrow> Fin 20))
         \<and> (configured_requestsPerMinute env_RPM options = Fin x \<longrightarrow>
              requestsPerMinute (new_QueuedRateLimiter rnd env_RPM options :: 't QueuedRateLimiter)
                = Fin (max 1 x)
              \<and> intervalMs (new_QueuedRateLimiter rnd env_RPM options :: 't QueuedRateLimiter)
                  = Fin (of_int \<lfloor>rnd (60000 / max 1 x)\<rfloor>))"
proof -
  have num: "requestsPerMinute (new_QueuedRateLimiter rnd env_RPM options :: 't QueuedRateLimiter)
                = Fin (max 1 x)
              \<and> intervalMs (new_QueuedRateLimiter rnd env_RPM options :: 't QueuedRateLimiter)
                  = Fin (of_int \<lfloor>rnd (60000 / max 1 x)\<rfloor>)"
    if c: "configured_requestsPerMinute env_RPM options = Fin x"
  proof -
    have r: "requestsPerMinute (new_QueuedRateLimiter rnd env_RPM options :: 't QueuedRateLimiter)
               = Fin (max 1 x)"
      using c by (simp add: new_QueuedRateLimiter_def)
    from numeric_rate[OF r] r show ?thesis by simp
  qed
  have cfg: "configured_requestsPerMinute env_RPM options
             = (case Option.bind options opt_requestsPerMinute of
                  Some v \<Rightarrow> v
                | None \<Rightarrow> (case env_RPM of Some v \<Rightarrow> v | None \<Rightarrow> Fin 20))"
    by (simp add: configured_requestsPerMinute_def default_requestsPerMinute_def
        split: option.splits)
  show ?thesis
    using num cfg by (simp add: getRateLimiter_def Let_def config_run)
qed

theorem C10_singleton_fixed_by_first_call_witness:
  "configured_requestsPerMinute None slow_options = Fin (1 / 2)
   \<and> requestsPerMinute
         (new_QueuedRateLimiter (\<lambda>x. x) None slow_options :: string QueuedRateLimiter)
       = Fin 1
   \<and> intervalMs (new_QueuedRateLimiter (\<lambda>x. x) None slow_options :: string QueuedRateLimiter)
       = Fin 60000"
proof -
  have h: "configured_requestsPerMinute None slow_options = Fin (1 / 2)"
    by (simp add: configured_requestsPerMinute_def slow_options_def)
  show ?thesis
    using h C10_singleton_fixed_by_first_call [where 't = string,
        where rnd = "\<lambda>x. x" and env_RPM = None and options = slow_options
        and x = "1 / 2" and rnd' = "\<lambda>x. x" and env_RPM' = None and options' = None
        and evs = "[]" and ?l1.0 = "new_QueuedRateLimiter (\<lambda>x. x) None slow_options"]
    by simp
qed

text \<open>
  With \<open>RPM=60\<close> in the environment and a first caller that gives only a name (as every
  caller in the engine does), the shared limiter runs at 60 requests per minute, not 20.
\<close>

theorem C10_default_from_environment:
  "requestsPerMinute
     (fst (getRateLimiter (\<lambda>x. x) (Some (Fin 60)) planning_options
             (\<lparr> singleton = None \<rparr> :: string limiter_module)))
     = Fin 60
   \<and> intervalMs
       (fst (getRateLimiter (\<lambda>x. x) (Some (Fin 60)) planning_options
               (\<lparr> singleton = None \<rparr> :: string limiter_module)))
     = Fin 1000"
  by (simp add: getRateLimiter_def Let_def new_QueuedRateLimiter_def
      configured_requestsPerMinute_def default_requestsPerMinute_def planning_options_def
      js_quotient_def js_div_def)

section \<open>Retry with backoff: which failures are retried, how long, and what surfaces\<close>

lemma retry_loop_char:
  assumes "int attempt \<le> retries opts"
      and "retry_loop opts fn rnd attempt lastErr slept = (res, slept')"
  shows "\<exists>ds. slept' = slept @ ds
           \<and> int (attempt + length ds) \<le> retries opts
           \<and> (\<forall>i < length ds. \<exists>err. fn (attempt + i) = Inl err \<and> isRateLimit err
                  \<and> ds ! i = retry_delay opts err (attempt + i) (rnd (attempt + i)))
           \<and> res = (case fn (attempt + length ds) of Inr v \<Rightarrow> Inr v | Inl err \<Rightarrow> Inl (Thrown err))
           \<and> (\<forall>err. fn (attempt + length ds) = Inl err \<and> isRateLimit err
                  \<longrightarrow> int (attempt + length ds) = retries opts)"
  using assms
proof (induction opts fn rnd attempt lastErr slept rule: retry_loop.induct)
  case (1 opts fn rnd attempt lastErr slept)
  show ?case
  proof (cases "fn attempt")
    case (Inr v)
    with "1.prems" show ?thesis by (intro exI[of _ "[]"]) simp
  next
    case (Inl err)
    show ?thesis
    proof (cases "\<not> isRateLimit err \<or> int attempt = retries opts")
      case True
      with Inl "1.prems" show ?thesis by (intro exI[of _ "[]"]) auto
    next
      case False
      let ?d = "retry_delay opts err attempt (rnd attempt)"
      from False "1.prems"(1) have le: "int (Suc attempt) \<le> retries opts" by simp
      from False Inl "1.prems" have
        rec: "retry_loop opts fn rnd (Suc attempt) (Thrown err) (slept @ [?d]) = (res, slept')"
        by simp
      from "1.IH"[OF "1.prems"(1) Inl False le rec] obtain ds where
        ds: "slept' = (slept @ [?d]) @ ds"
            "int (Suc attempt + length ds) \<le> retries opts"
            "\<forall>i < length ds. \<exists>e. fn (Suc attempt + i) = Inl e \<and> isRateLimit e
                  \<and> ds ! i = retry_delay opts e (Suc attempt + i) (rnd (Suc attempt + i))"
            "res = (case fn (Suc attempt + length ds) of Inr v \<Rightarrow> Inr v | Inl e \<Rightarrow> Inl (Thrown e))"
            "\<forall>e. fn (Suc attempt + length ds) = Inl e \<and> isRateLimit e
                  \<longrightarrow> int (Suc attempt + length ds) = retries opts"
        by blast
      have "\<forall>i < length (?d # ds). \<exists>e. fn (attempt + i) = Inl e \<and> isRateLimit e
                  \<and> (?d # ds) ! i = retry_delay opts e (attempt + i) (rnd (attempt + i))"
      proof (intro allI impI)
        fix i assume "i < length (?d # ds)"
        then show "\<exists>e. fn (attempt + i) = Inl e \<and> isRateLimit e
                  \<and> (?d # ds) ! i = retry_delay opts e (attempt + i) (rnd (attempt + i))"
          using ds(3) Inl False by (cases i) auto
      qed
      with ds show ?thesis by (intro exI[of _ "?d # ds"]) simp
    qed
  qed
qed

lemma jitter_bounds: "0 \<le> r \<Longrightarrow> r < 1 \<Longrightarrow> 0 \<le> jitter r \<and> jitter r \<le> 249"
proof -
  assume r: "0 \<le> r" "r < 1"
  then have "0 \<le> \<lfloor>r * 250\<rfloor>" by simp
  moreover from r have "r * 250 < 250" by simp
  then have "\<lfloor>r * 250\<rfloor> < 250" by (simp add: floor_less_iff)
  ultimately show ?thesis by (simp add: jitter_def)
qed

lemma math_min_whole: "math_min (Fin (of_int a)) (Fin (of_int b)) = Fin (of_int (min a b))"
  by (simp add: min_def)

lemma js_add_whole: "js_add (Fin (of_int a)) (Fin (of_int b)) = Fin (of_int (a + b))"
  by simp

lemma js_mul_whole: "js_mul (Fin (of_int a)) (Fin 1000) = Fin (of_int (a * 1000))"
  by simp

lemma retry_delay_no_hint:
  "e_retry_after err = None \<Longrightarrow>
   retry_delay opts err i r
     = Fin (of_int (min (maxDelayMs opts)
                      (min (maxDelayMs opts) (baseDelayMs opts * 2 ^ i) + jitter r)))"
  by (simp only: retry_delay_def Let_def option.case math_min_whole js_add_whole)

lemma retry_delay_hint:
  assumes "e_retry_after err = Some (Fin (of_int s))"
      and "s * 1000 + jitter r \<le> maxDelayMs opts"
  shows "retry_delay opts err i r = Fin (of_int (s * 1000 + jitter r))"
proof -
  have "retry_delay opts err i r
          = Fin (of_int (min (maxDelayMs opts) (s * 1000 + jitter r)))"
    using assms(1)
    by (simp only: retry_delay_def Let_def option.case math_min_whole js_add_whole js_mul_whole)
  with assms(2) show ?thesis by (simp add: min_def)
qed


lemma status_429_isRateLimit: "e_status err = Some 429 \<Longrightarrow> isRateLimit err"
  by (simp add: isRateLimit_def status_or_code_def)

lemma exhausted:
  fixes fn :: "nat \<Rightarrow> api_error + 'a"
  assumes "0 \<le> retries opts" and "\<forall>n. int n \<le> retries opts \<longrightarrow> (\<exists>err. fn n = Inl err \<and> isRateLimit err)"
  shows "\<exists>err slept. withRateLimitRetry opts fn rnd = (Inl (Thrown err), slept)
           \<and> fn (nat (retries opts)) = Inl err \<and> int (length slept) = retries opts"
proof -
  obtain res slept where rs: "withRateLimitRetry opts fn rnd = (res, slept)"
    by (cases "withRateLimitRetry opts fn rnd")
  from retry_loop_char[of 0 opts fn rnd Undefined "[]" res slept] assms(1) rs
  have le: "int (length slept) \<le> retries opts"
    and res: "res = (case fn (length slept) of Inr v \<Rightarrow> Inr v | Inl err \<Rightarrow> Inl (Thrown err))"
    and last: "\<forall>err. fn (length slept) = Inl err \<and> isRateLimit err
                  \<longrightarrow> int (length slept) = retries opts"
    by (auto simp: withRateLimitRetry_def)
  from assms(2) le obtain err where err: "fn (length slept) = Inl err" "isRateLimit err"
    by blast
  with last have n: "int (length slept) = retries opts" by blast
  then have "nat (retries opts) = length slept" by simp
  with err res rs n show ?thesis by auto
qed

text \<open>
  Claim C4, as the code has it. With a bound \<open>retries \<ge> 0\<close> and \<open>Math.random()\<close> in
  \<open>[0, 1)\<close>: the wrapped call is retried at most \<open>retries\<close> times, and only after a
  throttling failure (status or code 429, or a message containing \<open>429\<close>). The jitter
  is a whole number from 0 to 249. When the failure carries no \<open>retry-after\<close> hint,
  the wait before retry \<open>i\<close> is
  \<open>min maxDelayMs (min maxDelayMs (baseDelayMs * 2 ^ i) + jitter)\<close>; when it carries a
  hint of \<open>s\<close> whole seconds and \<open>s * 1000 + jitter\<close> does not exceed \<open>maxDelayMs\<close>,
  the wait is \<open>s * 1000 + jitter\<close>. The outcome is that of the last call made:
  what it returned, or its error thrown unchanged, and a throttling error is thrown
  only when the bound is exhausted. The defaults are 5, 500 ms and 8000 ms. After
  exhaustion on status 429 \<open>generatePlan\<close> throws the rate-limit help error, while
  \<open>generatePlanSummary\<close> returns its fallback text.
\<close>

theorem C4_retry_layer:
  fixes fn :: "nat \<Rightarrow> api_error + 'a" and fnS :: "nat \<Rightarrow> api_error + string option"
  assumes "0 \<le> retries opts" and "\<forall>n. 0 \<le> rnd n \<and> rnd n < 1"
      and "withRateLimitRetry opts fn rnd = (res, slept)"
  shows "int (length slept) \<le> retries opts
     \<and> (\<forall>i < length slept. \<exists>err. fn i = Inl err \<and> isRateLimit err
            \<and> 0 \<le> jitter (rnd i) \<and> jitter (rnd i) \<le> 249
            \<and> (e_retry_after err = None \<longrightarrow>
                   slept ! i = Fin (of_int (min (maxDelayMs opts)
                     (min (maxDelayMs opts) (baseDelayMs opts * 2 ^ i) + jitter (rnd i)))))
            \<and> (\<forall>s. e_retry_after err = Some (Fin (of_int s))
                     \<and> s * 1000 + jitter (rnd i) \<le> maxDelayMs opts \<longrightarrow>
                   slept ! i = Fin (of_int (s * 1000 + jitter (rnd i)))))
     \<and> res = (case fn (length slept) of Inr v \<Rightarrow> Inr v | Inl err \<Rightarrow> Inl (Thrown err))
     \<and> (\<forall>err. fn (length slept) = Inl err \<and> isRateLimit err
            \<longrightarrow> int (length slept) = retries opts)
     \<and> default_retry_options = \<lparr> retries = 5, baseDelayMs = 500, maxDelayMs = 8000 \<rparr>
     \<and> ((\<forall>n \<le> 5. \<exists>err. fn n = Inl err \<and> e_status err = Some 429)
            \<longrightarrow> generatePlan fn rnd = Inl RateLimitHelp)
     \<and> ((\<forall>n \<le> 5. \<exists>err. fnS n = Inl err \<and> isRateLimit err)
            \<longrightarrow> generatePlanSummary fnS rnd = Inr ''Summary generation failed'')"
proof -
  from retry_loop_char[of 0 opts fn rnd Undefined "[]" res slept] assms(1,3)
  have le: "int (length slept) \<le> retries opts"
    and each: "\<forall>i < length slept. \<exists>err. fn i = Inl err \<and> isRateLimit err
                  \<and> slept ! i = retry_delay opts err i (rnd i)"
    and res: "res = (case fn (length slept) of Inr v \<Rightarrow> Inr v | Inl err \<Rightarrow> Inl (Thrown err))"
    and last: "\<forall>err. fn (length slept) = Inl err \<and> isRateLimit err
                  \<longrightarrow> int (length slept) = retries opts"
    by (auto simp: withRateLimitRetry_def)
  have delays: "\<forall>i < length slept. \<exists>err. fn i = Inl err \<and> isRateLimit err
            \<and> 0 \<le> jitter (rnd i) \<and> jitter (rnd i) \<le> 249
            \<and> (e_retry_after err = None \<longrightarrow>
                   slept ! i = Fin (of_int (min (maxDelayMs opts)
                     (min (maxDelayMs opts) (baseDelayMs opts * 2 ^ i) + jitter (rnd i)))))
            \<and> (\<forall>s. e_retry_after err = Some (Fin (of_int s))
                     \<and> s * 1000 + jitter (rnd i) \<le> maxDelayMs opts \<longrightarrow>
                   slept ! i = Fin (of_int (s * 1000 + jitter (rnd i))))"
  proof (intro allI impI)
    fix i assume "i < length slept"
    with each obtain err where err: "fn i = Inl err" "isRateLimit err"
      "slept ! i = retry_delay opts err i (rnd i)" by blast
    from assms(2) have "0 \<le> jitter (rnd i) \<and> jitter (rnd i) \<le> 249"
      by (simp add: jitter_bounds)
    with err show "\<exists>err. fn i = Inl err \<and> isRateLimit err
            \<and> 0 \<le> jitter (rnd i) \<and> jitter (rnd i) \<le> 249
            \<and> (e_retry_after err = None \<longrightarrow>
                   slept ! i = Fin (of_int (min (maxDelayMs opts)
                     (min (maxDelayMs opts) (baseDelayMs opts * 2 ^ i) + jitter (rnd i)))))
            \<and> (\<forall>s. e_retry_after err = Some (Fin (of_int s))
                     \<and> s * 1000 + jitter (rnd i) \<le> maxDelayMs opts \<longrightarrow>
                   slept ! i = Fin (of_int (s * 1000 + jitter (rnd i))))"
      by (intro exI[of _ err]) (simp add: retry_delay_no_hint retry_delay_hint)
  qed
  have plan: "generatePlan fn rnd = Inl RateLimitHelp"
    if h: "\<forall>n \<le> 5. \<exists>err. fn n = Inl err \<and> e_status err = Some 429"
  proof -
    have "\<forall>n. int n \<le> retries default_retry_options \<longrightarrow> (\<exists>err. fn n = Inl err \<and> isRateLimit err)"
      using h status_429_isRateLimit by (fastforce simp: default_retry_options_def)
    from exhausted[OF _ this, of rnd] obtain err sl where
      e: "withRateLimitRetry default_retry_options fn rnd = (Inl (Thrown err), sl)"
         "fn (nat (retries default_retry_options)) = Inl err"
      by (auto simp: default_retry_options_def)
    from e(2) h have "e_status err = Some 429"
      by (auto simp: default_retry_options_def)
    with e(1) show ?thesis by (simp add: generatePlan_def is_429_def)
  qed
  have summary: "generatePlanSummary fnS rnd = Inr ''Summary generation failed''"
    if h: "\<forall>n \<le> 5. \<exists>err. fnS n = Inl err \<and> isRateLimit err"
  proof -
    have "\<forall>n. int n \<le> retries default_retry_options \<longrightarrow> (\<exists>err. fnS n = Inl err \<and> isRateLimit err)"
      using h by (simp add: default_retry_options_def)
    from exhausted[OF _ this, of rnd] obtain err sl where
      "withRateLimitRetry default_retry_options fnS rnd = (Inl (Thrown err), sl)"
      by (auto simp: default_retry_options_def)
    then show ?thesis by (simp add: generatePlanSummary_def)
  qed
  from le delays res last plan summary show ?thesis
    by (simp add: default_retry_options_def)
qed

theorem C4_retry_layer_witness:
  "0 \<le> retries default_retry_options
   \<and> (\<forall>n. 0 \<le> half_jitter n \<and> half_jitter n < 1)
   \<and> withRateLimitRetry default_retry_options told_to_wait_2s half_jitter
       = (Inl (Thrown (throttled\<lparr>e_retry_after := Some (Fin 2)\<rparr>)),
          [Fin 625, Fin 2125, Fin 2125, Fin 2125, Fin 2125])
   \<and> e_retry_after throttled = None
   \<and> jitter (half_jitter 0) = 125
   \<and> 2 * 1000 + jitter (half_jitter 1) \<le> maxDelayMs default_retry_options
   \<and> generatePlan told_to_wait_2s half_jitter = Inl RateLimitHelp
   \<and> generatePlanSummary summary_throttled half_jitter = Inr ''Summary generation failed''"
proof -
  have h1: "0 \<le> retries default_retry_options"
    by (simp add: default_retry_options_def)
  have h2: "\<forall>n. 0 \<le> half_jitter n \<and> half_jitter n < 1"
    by (simp add: half_jitter_def)
  have h3: "withRateLimitRetry default_retry_options told_to_wait_2s half_jitter
              = (Inl (Thrown (throttled\<lparr>e_retry_after := Some (Fin 2)\<rparr>)),
                 [Fin 625, Fin 2125, Fin 2125, Fin 2125, Fin 2125])"
    by (simp add: withRateLimitRetry_def default_retry_options_def told_to_wait_2s_def
        half_jitter_def throttled_def isRateLimit_def status_or_code_def retry_delay_def
        jitter_def)
  have h4: "\<forall>n \<le> 5. \<exists>err. told_to_wait_2s n = Inl err \<and> e_status err = Some 429"
    by (simp add: told_to_wait_2s_def throttled_def)
  have h5: "\<forall>n \<le> 5. \<exists>err. summary_throttled n = Inl err \<and> isRateLimit err"
    by (simp add: summary_throttled_def throttled_def isRateLimit_def status_or_code_def)
  have h6: "e_retry_after throttled = None \<and> jitter (half_jitter 0) = 125
            \<and> 2 * 1000 + jitter (half_jitter 1) \<le> maxDelayMs default_retry_options"
    by (simp add: throttled_def jitter_def half_jitter_def default_retry_options_def)
  show ?thesis
    using h1 h2 h3 h4 h5 h6 C4_retry_layer [OF h1 h2 h3, of summary_throttled]
    by simp
qed

text \<open>
  Under persistent throttling the retry layer throws the provider's own error, not a
  distinguished one, and the summary call, which is wrapped by the layer too, surfaces
  no error at all.
\<close>

theorem C4_exhaustion_without_RateLimited:
  "fst (withRateLimitRetry default_retry_options always_throttled no_jitter)
     = Inl (Thrown throttled)
   \<and> generatePlanSummary summary_throttled no_jitter = Inr ''Summary generation failed''"
  by (simp add: withRateLimitRetry_def generatePlanSummary_def default_retry_options_def
      always_throttled_def summary_throttled_def no_jitter_def
      throttled_def isRateLimit_def status_or_code_def retry_delay_def jitter_def)

text \<open>
  Hints outside the property above. A \<open>retry-after\<close> of 30 seconds is cut to the
  maximum: the layer waits 8 seconds each time, although its comment says
  \<open>Honor Retry-After if present\<close> and its log line announces 30 seconds. A hint that is
  an HTTP date gives the delay \<open>NaN\<close>, on which \<open>setTimeout\<close> does not wait.
\<close>

lemma long_hint_is_cut:
  "snd (withRateLimitRetry default_retry_options told_to_wait_30s no_jitter)
     = [Fin 8000, Fin 8000, Fin 8000, Fin 8000, Fin 8000]"
  by (simp add: withRateLimitRetry_def default_retry_options_def told_to_wait_30s_def
      no_jitter_def throttled_def isRateLimit_def status_or_code_def retry_delay_def jitter_def)

lemma date_hint_gives_NaN:
  "snd (withRateLimitRetry default_retry_options told_a_date no_jitter)
     = [NaN, NaN, NaN, NaN, NaN]"
  by (simp add: withRateLimitRetry_def default_retry_options_def told_a_date_def
      no_jitter_def throttled_def isRateLimit_def status_or_code_def retry_delay_def jitter_def)

section \<open>Similarity store: cosine similarity\<close>

lemma getChunkKey_inj [simp]:
  "getChunkKey cfg u p a = getChunkKey cfg u p b \<longleftrightarrow> a = b"
  by (simp add: getChunkKey_def)

lemma foldl_sq: "foldl (\<lambda>sum val. sum + val * val) s a = s + (\<Sum>x \<leftarrow> a. x * x)" for s :: real
  by (induction a arbitrary: s) auto

lemma foldl_dot:
  "foldl (\<lambda>sum (val, bi). sum + val * bi) s ab = s + (\<Sum>(x, y) \<leftarrow> ab. x * y)" for s :: real
  by (induction ab arbitrary: s) auto

lemma magnitude_sum: "magnitude a = sqrt (\<Sum>x \<leftarrow> a. x * x)"
  by (simp add: magnitude_def foldl_sq)

lemma dotProduct_sum: "dotProduct a b = (\<Sum>(x, y) \<leftarrow> zip a b. x * y)"
  by (simp add: dotProduct_def foldl_dot)

lemma cosineSimilarity_spec:
  assumes "length a = length b" "magnitude a \<noteq> 0" "magnitude b \<noteq> 0"
  shows "cosineSimilarity a b = Inr (Fin (spec_cosine a b))"
  using assms
  by (simp add: cosineSimilarity_def js_div_def spec_cosine_def magnitude_sum dotProduct_sum)

lemma sumsq_nonneg: "0 \<le> sum_list (map (\<lambda>x. x * x) a)" for a :: "real list"
  by (induction a) auto

lemma sumsq_pos: "\<exists>x \<in> set a. x \<noteq> 0 \<Longrightarrow> 0 < sum_list (map (\<lambda>x. x * x) a)" for a :: "real list"
proof (induction a)
  case Nil then show ?case by simp
next
  case (Cons x a)
  show ?case
  proof (cases "x = 0")
    case True with Cons show ?thesis by auto
  next
    case False
    then have "0 < x * x" by (auto simp: zero_less_mult_iff)
    with sumsq_nonneg[of a] show ?thesis by simp
  qed
qed

lemma magnitude_pos: "\<exists>x \<in> set a. x \<noteq> 0 \<Longrightarrow> 0 < magnitude a"
  by (simp add: magnitude_sum sumsq_pos)

lemma magnitude_zero_iff: "magnitude a = 0 \<longleftrightarrow> (\<forall>x \<in> set a. x = 0)"
proof
  assume "magnitude a = 0"
  then show "\<forall>x \<in> set a. x = 0" using magnitude_pos[of a] by fastforce
next
  assume "\<forall>x \<in> set a. x = 0"
  then have "sum_list (map (\<lambda>x. x * x) a) = 0" by (induction a) auto
  then show "magnitude a = 0" by (simp add: magnitude_sum)
qed

lemma cs_lists:
  fixes ab :: "(real \<times> real) list"
  shows "(sum_list (map (\<lambda>(x, y). x * y) ab))\<^sup>2
           \<le> sum_list (map (\<lambda>(x, y). x * x) ab) * sum_list (map (\<lambda>(x, y). y * y) ab)"
proof (induction ab)
  case Nil then show ?case by simp
next
  case (Cons p ab)
  obtain x y where p: "p = (x, y)" by (cases p)
  let ?D = "sum_list (map (\<lambda>(x, y). x * y) ab)"
  let ?A = "sum_list (map (\<lambda>(x, y). x * x) ab)"
  let ?B = "sum_list (map (\<lambda>(x, y). y * y) ab)"
  have A: "0 \<le> ?A" by (induction ab) auto
  have B: "0 \<le> ?B" by (induction ab) auto
  have "\<bar>?D\<bar> \<le> sqrt (?A * ?B)"
    using Cons.IH by (metis real_sqrt_abs real_sqrt_le_iff)
  have "2 * (x * y) * ?D \<le> 2 * \<bar>x * y\<bar> * \<bar>?D\<bar>"
    by (metis abs_ge_self abs_mult abs_numeral mult.assoc)
  also have "\<dots> \<le> 2 * \<bar>x * y\<bar> * sqrt (?A * ?B)"
    using \<open>\<bar>?D\<bar> \<le> sqrt (?A * ?B)\<close> by (simp add: mult_left_mono)
  also have "\<dots> = 2 * (sqrt (x * x * ?B) * sqrt (y * y * ?A))"
    by (simp add: real_sqrt_mult abs_mult mult_ac)
  also have "\<dots> \<le> x * x * ?B + y * y * ?A"
  proof -
    have "0 \<le> (sqrt (x * x * ?B) - sqrt (y * y * ?A))\<^sup>2" by simp
    moreover have "0 \<le> x * x * ?B" "0 \<le> y * y * ?A" using A B by simp_all
    ultimately show ?thesis by (simp add: power2_diff)
  qed
  finally have "2 * (x * y) * ?D \<le> x * x * ?B + y * y * ?A" .
  then show ?case using Cons.IH p
    by (simp add: power2_eq_square algebra_simps)
qed




lemma zip_sums:
  "length a = length b \<Longrightarrow>
     (\<Sum>(x, y) \<leftarrow> zip a b. x * x) = (\<Sum>x \<leftarrow> a. x * x)
     \<and> (\<Sum>(x, y) \<leftarrow> zip a b. y * y) = (\<Sum>y \<leftarrow> b. y * y)" for a b :: "real list"
  by (induction a b rule: list_induct2) auto

lemma spec_cosine_range:
  assumes "length a = length b" "magnitude a \<noteq> 0" "magnitude b \<noteq> 0"
  shows "- 1 \<le> spec_cosine a b \<and> spec_cosine a b \<le> 1"
proof -
  let ?D = "\<Sum>(x, y) \<leftarrow> zip a b. x * y"
  let ?A = "\<Sum>x \<leftarrow> a. x * x"
  let ?B = "\<Sum>y \<leftarrow> b. y * y"
  have A: "0 \<le> ?A" and B: "0 \<le> ?B" by (rule sumsq_nonneg)+
  from assms(2,3) have pos: "0 < sqrt ?A * sqrt ?B"
    using A B by (simp add: magnitude_sum less_le)
  have "?D\<^sup>2 \<le> ?A * ?B"
    using cs_lists[of "zip a b"] zip_sums[OF assms(1)] by simp
  then have "\<bar>?D\<bar> \<le> sqrt (?A * ?B)"
    by (metis real_sqrt_abs real_sqrt_le_iff)
  then have "\<bar>?D\<bar> \<le> sqrt ?A * sqrt ?B" by (simp add: real_sqrt_mult)
  then have "- (sqrt ?A * sqrt ?B) \<le> ?D" and "?D \<le> sqrt ?A * sqrt ?B" by linarith+
  then have "- 1 \<le> ?D / (sqrt ?A * sqrt ?B)" and "?D / (sqrt ?A * sqrt ?B) \<le> 1"
    using pos by (simp_all add: pos_le_divide_eq pos_divide_le_eq)
  then show ?thesis by (simp add: spec_cosine_def)
qed

text \<open>
  In exact arithmetic, for vectors of equal dimension and non-zero magnitude the
  quotient is the specification's formula, and the value lies in [-1, 1].
\<close>

lemma cosineSimilarity_in_range:
  assumes "length a = length b" "magnitude a \<noteq> 0" "magnitude b \<noteq> 0"
  shows "cosineSimilarity a b = Inr (Fin (spec_cosine a b))
         \<and> - 1 \<le> spec_cosine a b \<and> spec_cosine a b \<le> 1"
  using cosineSimilarity_spec[OF assms] spec_cosine_range[OF assms] by simp

text \<open>
  With a vector of zero magnitude (all entries 0, see \<open>magnitude_zero_iff\<close>) the
  dot product is 0 as well and the quotient is 0 / 0.
\<close>

lemma dot_zero_left:
  "\<forall>x \<in> set a. x = 0 \<Longrightarrow> (\<Sum>(x, y) \<leftarrow> zip a b. x * y) = 0" for a b :: "real list"
proof (induction a arbitrary: b)
  case Nil
  then show ?case by simp
next
  case (Cons x a)
  then show ?case by (cases b) auto
qed

lemma dot_zero_right:
  "\<forall>y \<in> set b. y = 0 \<Longrightarrow> (\<Sum>(x, y) \<leftarrow> zip a b. x * y) = 0" for a b :: "real list"
proof (induction a arbitrary: b)
  case Nil
  then show ?case by simp
next
  case (Cons x a)
  then show ?case by (cases b) auto
qed

lemma cosineSimilarity_zero_magnitude:
  assumes "length a = length b" and "magnitude a = 0 \<or> magnitude b = 0"
  shows "cosineSimilarity a b = Inr NaN"
proof -
  from assms(2) have "dotProduct a b = 0"
    using dot_zero_left[of a b] dot_zero_right[of b a]
    by (auto simp: magnitude_zero_iff dotProduct_sum)
  with assms show ?thesis
    by (auto simp: cosineSimilarity_def js_div_def)
qed

lemma store3_index:
  "sMembers store3 (getProjectIndexKey default_config ''user1'' ''project1'') = [''a'', ''b'', ''c'']"
  by (simp add: store3_def three_chunks_def chunk_with_def write_chunk_def sAdd_def hSet_def
      empty_redis_def sMembers_def)

lemma store3_hashes:
  "indexed_hashes default_config store3 ''user1'' ''project1''
     = [chunk_fields (chunk_with ''a'' [1, 0]) [1, 0] 0,
        chunk_fields (chunk_with ''b'' [0, 1]) [0, 1] 0,
        chunk_fields (chunk_with ''c'' [3 / 5, 4 / 5]) [3 / 5, 4 / 5] 0]"
  by (simp add: indexed_hashes_def store3_index)
     (simp add: store3_def three_chunks_def chunk_with_def write_chunk_def sAdd_def hSet_def
      empty_redis_def hGetAll_def)

text \<open>
  Claim C8. In exact arithmetic the similarity of vectors of non-zero magnitude is the
  formula, within [-1, 1] (\<open>cosineSimilarity_in_range\<close>). With a vector of zero
  magnitude the division is 0 / 0 (\<open>cosineSimilarity_zero_magnitude\<close>), in doubles as
  in exact arithmetic: the similarity of the query [0, 0] against [1, 0] is \<open>NaN\<close>,
  and a search with that query annotates every result with \<open>NaN\<close>, which is not in
  [-1, 1].
\<close>

theorem C8_zero_magnitude_gives_NaN:
  "cosineSimilarity [0, 0] [1, 0] = Inr NaN
   \<and> map_sum id (map similarity)
         (searchSimilar default_config store3 ''user1'' ''project1'' [0, 0] 10)
       = Inr [NaN, NaN, NaN]
   \<and> \<not> js_ge NaN (Fin (- 1)) \<and> \<not> js_ge (Fin 1) NaN"
  apply (simp add: searchSimilar_def store3_index Let_def)
  apply (simp add: store3_def three_chunks_def chunk_with_def write_chunk_def sAdd_def hSet_def
      empty_redis_def hGetAll_def getChunkKey_def default_config_def chunk_fields_def
      cosineSimilarity_def js_div_def dotProduct_def magnitude_def scored_def array_sort_def
      by_similarity_def slice0_def)
  done

section \<open>Similarity store: search\<close>

lemma insert_sorted_set: "set (insert_sorted cmp x ys) = insert x (set ys)"
  by (induction ys) auto

lemma insert_sorted_length: "length (insert_sorted cmp x ys) = Suc (length ys)"
  by (induction ys) auto

lemma insert_sorted_count:
  "count_list (insert_sorted cmp x ys) c = count_list (x # ys) c"
  by (induction ys) auto

lemma ranked_trans: "ranked a b \<Longrightarrow> ranked b c \<Longrightarrow> ranked a c"
  by (cases "similarity a"; cases "similarity b"; cases "similarity c") (auto simp: ranked_def)

lemma by_similarity_numeric:
  "numeric_score x \<Longrightarrow> numeric_score y
   \<Longrightarrow> (js_negative (by_similarity x y) \<longrightarrow> ranked x y) \<and> (\<not> js_negative (by_similarity x y) \<longrightarrow> ranked y x)"
  by (cases "similarity x"; cases "similarity y")
    (auto simp: ranked_def by_similarity_def numeric_score_def)

lemma insert_sorted_ranked:
  "numeric_score x \<Longrightarrow> list_all numeric_score ys \<Longrightarrow> sorted_wrt ranked ys
   \<Longrightarrow> sorted_wrt ranked (insert_sorted by_similarity x ys)"
proof (induction ys)
  case Nil
  then show ?case by simp
next
  case (Cons y ys)
  from Cons.prems have fy: "numeric_score y" and fys: "list_all numeric_score ys"
    and sy: "\<forall>z \<in> set ys. ranked y z" and sys: "sorted_wrt ranked ys" by auto
  show ?case
  proof (cases "js_negative (by_similarity x y)")
    case True
    with by_similarity_numeric[OF Cons.prems(1) fy] have xy: "ranked x y" by simp
    with sy have "\<forall>z \<in> set ys. ranked x z" using ranked_trans by blast
    with True xy sy sys show ?thesis by simp
  next
    case False
    with by_similarity_numeric[OF Cons.prems(1) fy] have yx: "ranked y x" by simp
    from Cons.IH[OF Cons.prems(1) fys sys] have "sorted_wrt ranked (insert_sorted by_similarity x ys)" .
    with False yx sy show ?thesis by (simp add: insert_sorted_set)
  qed
qed

lemma foldl_insert_sorted:
  "list_all numeric_score acc \<Longrightarrow> list_all numeric_score xs \<Longrightarrow> sorted_wrt ranked acc
   \<Longrightarrow> sorted_wrt ranked (foldl (\<lambda>sorted x. insert_sorted by_similarity x sorted) acc xs)
       \<and> length (foldl (\<lambda>sorted x. insert_sorted by_similarity x sorted) acc xs) = length acc + length xs"
proof (induction xs arbitrary: acc)
  case Nil
  then show ?case by simp
next
  case (Cons x xs)
  have "list_all numeric_score (insert_sorted by_similarity x acc)"
    using Cons.prems by (simp add: list_all_iff insert_sorted_set)
  moreover have "sorted_wrt ranked (insert_sorted by_similarity x acc)"
    using Cons.prems by (simp add: insert_sorted_ranked)
  ultimately show ?case
    using Cons.IH[of "insert_sorted by_similarity x acc"] Cons.prems
    by (auto simp: insert_sorted_length)
qed

lemma foldl_insert_count:
  "count_list (foldl (\<lambda>sorted x. insert_sorted cmp x sorted) acc xs) c
     = count_list acc c + count_list xs c"
  by (induction xs arbitrary: acc) (auto simp: insert_sorted_count)

text \<open>
  Sorting scores none of which is \<open>NaN\<close> gives a ranking, and sorting only rearranges.
\<close>

lemma array_sort_ranked:
  "list_all numeric_score xs
   \<Longrightarrow> sorted_wrt ranked (array_sort by_similarity xs)
       \<and> length (array_sort by_similarity xs) = length xs"
  using foldl_insert_sorted[of "[]" xs] by (simp add: array_sort_def)

lemma array_sort_count: "count_list (array_sort cmp xs) c = count_list xs c"
  by (simp add: array_sort_def foldl_insert_count)

lemma score_chunks_by_ok:
  assumes "\<forall>h \<in> set (List.map_filter (\<lambda>chunkId. hGetAll st (getChunkKey cfg u p chunkId)) ids).
             length (h_embedding h) = length q"
  shows "score_chunks_by ratio cfg st u p q ids
           = Inr (map (scored_by ratio q)
                    (List.map_filter (\<lambda>chunkId. hGetAll st (getChunkKey cfg u p chunkId)) ids))"
  using assms
proof (induction ids)
  case Nil
  then show ?case by (simp add: List.map_filter_simps)
next
  case (Cons cid ids)
  show ?case
  proof (cases "hGetAll st (getChunkKey cfg u p cid)")
    case None
    with Cons show ?thesis by (simp add: List.map_filter_simps)
  next
    case (Some h)
    with Cons.prems have h: "length q = length (h_embedding h)"
      and rest: "\<forall>h \<in> set (List.map_filter (\<lambda>chunkId. hGetAll st (getChunkKey cfg u p chunkId)) ids).
             length (h_embedding h) = length q"
      by (auto simp: List.map_filter_simps)
    from h Cons.IH[OF rest] Some
    show ?thesis by (simp add: List.map_filter_simps cosineSimilarity_by_def scored_by_def)
  qed
qed

lemma searchSimilar_by_ranking:
  assumes "0 \<le> k" and "0 \<le> maxResults cfg"
      and "\<forall>h \<in> set (indexed_hashes cfg st u p). length (h_embedding h) = length q"
  shows "searchSimilar_by ratio cfg st u p q k
           = Inr (take (nat (min k (maxResults cfg)))
                    (array_sort by_similarity
                       (map (scored_by ratio q) (indexed_hashes cfg st u p))))"
proof -
  let ?ids = "sMembers st (getProjectIndexKey cfg u p)"
  let ?hs = "indexed_hashes cfg st u p"
  have sc: "score_chunks_by ratio cfg st u p q ?ids = Inr (map (scored_by ratio q) ?hs)"
    using score_chunks_by_ok[of st cfg u p ?ids q ratio] assms(3)
    by (simp add: indexed_hashes_def)
  have nonneg: "\<not> min k (maxResults cfg) < 0" using assms(1,2) by simp
  show ?thesis
  proof (cases "?ids = []")
    case True
    then have "?hs = []" by (simp add: indexed_hashes_def List.map_filter_simps)
    with True show ?thesis by (simp add: searchSimilar_by_def array_sort_def)
  next
    case False
    with sc nonneg show ?thesis by (simp add: searchSimilar_by_def Let_def slice0_def)
  qed
qed

text \<open>With the exact arithmetic the search is \<open>searchSimilar\<close>.\<close>

lemma score_chunks_exact:
  "score_chunks_by exact_ratio cfg st u p q ids = score_chunks cfg st u p q ids"
  by (induction ids)
    (auto simp: cosineSimilarity_by_def cosineSimilarity_def exact_ratio_def
      split: option.splits sum.splits)

lemma searchSimilar_exact:
  "searchSimilar_by exact_ratio cfg st u p q k = searchSimilar cfg st u p q k"
  by (simp add: searchSimilar_by_def searchSimilar_def score_chunks_exact Let_def)

text \<open>
  Claim C2, as the code has it, whatever the rounding of the arithmetic. Take a limit
  \<open>k \<ge> 0\<close>, a cap \<open>maxResults \<ge> 0\<close> (20 by default) and a project in which every
  stored vector has the query's dimension and gets a score that is not \<open>NaN\<close>. The
  search succeeds and returns \<open>min n (min k maxResults)\<close> chunks, \<open>n\<close> being the number
  of indexed chunks with a stored vector: so exactly \<open>k\<close> chunks when \<open>k \<le> n\<close> and
  \<open>k \<le> maxResults\<close>. The results are the head of a ranking of all these chunks: the
  results followed by some list \<open>rest\<close> hold each indexed chunk, with the score computed
  for it, as many times as the index does, and this whole list is in non-increasing
  order of score.
\<close>

theorem C2_search_top_k_ranked:
  assumes "0 \<le> k" and "0 \<le> maxResults cfg"
      and "\<forall>h \<in> set (indexed_hashes cfg st u p).
             length (h_embedding h) = length q \<and> ratio q (h_embedding h) \<noteq> NaN"
  shows "\<exists>rs rest. searchSimilar_by ratio cfg st u p q k = Inr rs
           \<and> length rs = min (length (indexed_hashes cfg st u p)) (nat (min k (maxResults cfg)))
           \<and> sorted_wrt ranked (rs @ rest)
           \<and> (\<forall>c. count_list (rs @ rest) c
                    = count_list (map (scored_by ratio q) (indexed_hashes cfg st u p)) c)"
proof -
  let ?hs = "indexed_hashes cfg st u p"
  let ?cands = "map (scored_by ratio q) ?hs"
  let ?n = "nat (min k (maxResults cfg))"
  let ?all = "array_sort by_similarity ?cands"
  have num: "list_all numeric_score ?cands"
    using assms(3) by (simp add: list_all_iff scored_by_def scored_def numeric_score_def)
  note srt = array_sort_ranked[OF num]
  have dims: "\<forall>h \<in> set ?hs. length (h_embedding h) = length q" using assms(3) by simp
  have res: "searchSimilar_by ratio cfg st u p q k = Inr (take ?n ?all)"
    using searchSimilar_by_ranking[OF assms(1,2) dims] .
  have len: "length (take ?n ?all) = min (length ?hs) ?n" using srt by simp
  have sorted: "sorted_wrt ranked (take ?n ?all @ drop ?n ?all)" using srt by simp
  have cnt: "\<forall>c. count_list (take ?n ?all @ drop ?n ?all) c = count_list ?cands c"
    by (simp add: array_sort_count)
  from res len sorted cnt show ?thesis by blast
qed

lemma store3_scores:
  "map (scored_by exact_ratio [1, 0]) (indexed_hashes default_config store3 ''user1'' ''project1'')
     = [scored (chunk_fields (chunk_with ''a'' [1, 0]) [1, 0] 0) (Fin 1),
        scored (chunk_fields (chunk_with ''b'' [0, 1]) [0, 1] 0) (Fin 0),
        scored (chunk_fields (chunk_with ''c'' [3 / 5, 4 / 5]) [3 / 5, 4 / 5] 0) (Fin (3 / 5))]"
  by (simp add: store3_hashes scored_by_def exact_ratio_def chunk_fields_def js_div_def
      dotProduct_def magnitude_def power2_eq_square real_sqrt_divide)

theorem C2_search_top_k_ranked_witness:
  "(0::int) \<le> 2 \<and> 0 \<le> maxResults default_config
   \<and> map (\<lambda>h. (length (h_embedding h), exact_ratio [1, 0] (h_embedding h)))
         (indexed_hashes default_config store3 ''user1'' ''project1'')
       = [(2, Fin 1), (2, Fin 0), (2, Fin (3 / 5))]
   \<and> (\<exists>rs rest. searchSimilar default_config store3 ''user1'' ''project1'' [1, 0] 2 = Inr rs
          \<and> length rs = 2 \<and> sorted_wrt ranked (rs @ rest)
          \<and> (\<forall>c. count_list (rs @ rest) c
                   = count_list
                       [scored (chunk_fields (chunk_with ''a'' [1, 0]) [1, 0] 0) (Fin 1),
                        scored (chunk_fields (chunk_with ''b'' [0, 1]) [0, 1] 0) (Fin 0),
                        scored (chunk_fields (chunk_with ''c'' [3 / 5, 4 / 5]) [3 / 5, 4 / 5] 0)
                          (Fin (3 / 5))] c))"
proof -
  have h1: "(0::int) \<le> 2" by simp
  have h2: "0 \<le> maxResults default_config" by (simp add: default_config_def)
  have sc: "map (\<lambda>h. (length (h_embedding h), exact_ratio [1, 0] (h_embedding h)))
              (indexed_hashes default_config store3 ''user1'' ''project1'')
            = [(2, Fin 1), (2, Fin 0), (2, Fin (3 / 5))]"
    by (simp add: store3_hashes exact_ratio_def chunk_fields_def js_div_def
        dotProduct_def magnitude_def power2_eq_square real_sqrt_divide)
  have h3: "\<forall>h \<in> set (indexed_hashes default_config store3 ''user1'' ''project1'').
              length (h_embedding h) = length [1 :: real, 0]
              \<and> exact_ratio [1, 0] (h_embedding h) \<noteq> NaN"
    by (simp add: store3_hashes exact_ratio_def chunk_fields_def js_div_def
        dotProduct_def magnitude_def power2_eq_square real_sqrt_divide)
  have len: "length (indexed_hashes default_config store3 ''user1'' ''project1'') = 3"
    by (simp add: store3_hashes)
  have n: "nat (min 2 (maxResults default_config)) = 2" by (simp add: default_config_def)
  from C2_search_top_k_ranked [where ratio = exact_ratio and k = 2 and cfg = default_config
      and st = store3 and u = "''user1''" and p = "''project1''" and q = "[1, 0]", OF h1 h2 h3]
  show ?thesis
    unfolding searchSimilar_exact store3_scores len n
    using h2 sc by simp
qed

text \<open>
  The scenario of the specification with unit vectors: the project holds [1, 0], [0, 1]
  and [3/5, 4/5]; the query [1, 0] with \<open>k = 2\<close> returns [1, 0] (similarity 1), then
  [3/5, 4/5] (similarity 3/5), in exact arithmetic.
\<close>

lemma search_scenario:
  "map_sum id (map (\<lambda>r. (s_id r, similarity r)))
       (searchSimilar default_config store3 ''user1'' ''project1'' [1, 0] 2)
     = Inr [(''a'', Fin 1), (''c'', Fin (3 / 5))]"
  apply (simp add: searchSimilar_def store3_index Let_def)
  apply (simp add: store3_def three_chunks_def chunk_with_def write_chunk_def sAdd_def hSet_def
      empty_redis_def hGetAll_def getChunkKey_def default_config_def chunk_fields_def
      cosineSimilarity_def js_div_def dotProduct_def magnitude_def scored_def array_sort_def
      by_similarity_def slice0_def)
  done

text \<open>
  Scores that are \<open>NaN\<close> are outside the property: with the query [0, 0] every score
  is \<open>NaN\<close>, and no two results are in order.
\<close>

lemma nan_scores_are_not_ranked:
  "map_sum id (sorted_wrt ranked)
       (searchSimilar default_config store3 ''user1'' ''project1'' [0, 0] 10)
     = Inr False"
  apply (simp add: searchSimilar_def store3_index Let_def)
  apply (simp add: store3_def three_chunks_def chunk_with_def write_chunk_def sAdd_def hSet_def
      empty_redis_def hGetAll_def getChunkKey_def default_config_def chunk_fields_def
      cosineSimilarity_def js_div_def dotProduct_def magnitude_def scored_def array_sort_def
      by_similarity_def slice0_def ranked_def)
  done

lemma store21_index:
  "sMembers store21 (getProjectIndexKey default_config ''user1'' ''project1'') = ids21"
  by (simp add: store21_def ids21_def chunk_with_def write_chunk_def sAdd_def hSet_def
      empty_redis_def sMembers_def)

lemma store21_hashes:
  "indexed_hashes default_config store21 ''user1'' ''project1''
     = map (\<lambda>cid. chunk_fields (chunk_with cid [1]) [1] 0) ids21"
  unfolding indexed_hashes_def store21_index
  by (simp add: store21_def ids21_def chunk_with_def write_chunk_def sAdd_def hSet_def
      empty_redis_def hGetAll_def chunk_fields_def)

text \<open>
  A project holds 21 chunks with embeddings and the store has its default
  configuration: a search with \<open>k = 21\<close> returns 20 chunks, not 21.
\<close>

theorem C2_limit_capped_by_maxResults:
  "length (indexed_hashes default_config store21 ''user1'' ''project1'') = 21
   \<and> map_sum id length (searchSimilar default_config store21 ''user1'' ''project1'' [1] 21)
       = Inr 20"
proof -
  have h: "\<forall>h \<in> set (indexed_hashes default_config store21 ''user1'' ''project1'').
             length (h_embedding h) = length [1::real]"
    by (simp add: store21_hashes chunk_fields_def)
  have num: "list_all numeric_score
               (map (scored_by exact_ratio [1])
                  (indexed_hashes default_config store21 ''user1'' ''project1''))"
    by (simp add: store21_hashes list_all_iff scored_by_def scored_def numeric_score_def
        exact_ratio_def chunk_fields_def js_div_def dotProduct_def magnitude_def)
  have len: "length (indexed_hashes default_config store21 ''user1'' ''project1'') = 21"
    by (simp add: store21_hashes ids21_def)
  have m: "0 \<le> maxResults default_config" "nat (min 21 (maxResults default_config)) = 20"
    by (simp_all add: default_config_def)
  have "length (array_sort by_similarity
                  (map (scored_by exact_ratio [1])
                     (indexed_hashes default_config store21 ''user1'' ''project1''))) = 21"
    using array_sort_ranked[OF num] len by simp
  with searchSimilar_by_ranking[OF _ m(1) h, of 21 exact_ratio] m(2) len show ?thesis
    by (simp add: searchSimilar_exact)
qed

section \<open>Similarity store: put and putBatch\<close>












section \<open>Similarity store: clear and stats\<close>

lemma fold_del:
  "hashes (foldl (\<lambda>s chunkId. del s (key chunkId)) st ids) k
     = (if k \<in> key ` set ids then None else hashes st k)
   \<and> sets (foldl (\<lambda>s chunkId. del s (key chunkId)) st ids) k
     = (if k \<in> key ` set ids then [] else sets st k)"
  by (induction ids arbitrary: st) (auto simp: del_def)

lemma hashes_del: "hashes (del s k) = (hashes s)(k := None)"
  by (simp add: del_def)

lemma getStats_empty:
  "sMembers st (getProjectIndexKey cfg u p) = []
   \<Longrightarrow> getStats cfg st u p = \<lparr> totalChunks = 0, totalSize = 0, chunkTypes = (\<lambda>t. None) \<rparr>"
  by (simp add: getStats_def)

lemma clearProject_index:
  "sMembers (clearProject cfg st u p) (getProjectIndexKey cfg u p) = []"
  by (simp add: clearProject_def Let_def sMembers_def del_def)

lemma clearProject_hashes:
  "cid \<in> set (sMembers st (getProjectIndexKey cfg u p))
   \<Longrightarrow> hGetAll (clearProject cfg st u p) (getChunkKey cfg u p cid) = None"
  by (auto simp: clearProject_def Let_def hGetAll_def hashes_del fold_del)


text \<open>
  Claim C9. After \<open>clearProject\<close> no chunk registered in the project's index has a
  hash left and the index set is gone; on a project whose index is empty the call
  changes nothing and returns normally, so clearing twice is the same as clearing once;
  and \<open>getStats\<close> right after reports zero chunks (and zero size, no types), whatever the
  state before.
\<close>

theorem C9_clear_then_stats_zero:
  "(\<forall>cid \<in> set (sMembers st (getProjectIndexKey cfg u p)).
        hGetAll (clearProject cfg st u p) (getChunkKey cfg u p cid) = None)
   \<and> sMembers (clearProject cfg st u p) (getProjectIndexKey cfg u p) = []
   \<and> (sMembers st (getProjectIndexKey cfg u p) = [] \<longrightarrow> clearProject cfg st u p = st)
   \<and> clearProject cfg (clearProject cfg st u p) u p = clearProject cfg st u p
   \<and> getStats cfg (clearProject cfg st u p) u p
       = \<lparr> totalChunks = 0, totalSize = 0, chunkTypes = (\<lambda>t. None) \<rparr>"
proof -
  have "clearProject cfg (clearProject cfg st u p) u p = clearProject cfg st u p"
    using clearProject_index[of cfg st u p]
    by (simp add: clearProject_def[of cfg "clearProject cfg st u p"] Let_def)
  moreover have "sMembers st (getProjectIndexKey cfg u p) = [] \<longrightarrow> clearProject cfg st u p = st"
    by (simp add: clearProject_def Let_def)
  ultimately show ?thesis
    using clearProject_index[of cfg st u p] clearProject_hashes[of _ st cfg u p]
      getStats_empty[OF clearProject_index[of cfg st u p]]
    by simp
qed

theorem C9_clear_then_stats_zero_witness:
  "''a'' \<in> set (sMembers store3 (getProjectIndexKey default_config ''user1'' ''project1''))
   \<and> hGetAll store3 (getChunkKey default_config ''user1'' ''project1'' ''a'') \<noteq> None
   \<and> hGetAll (clearProject default_config store3 ''user1'' ''project1'')
         (getChunkKey default_config ''user1'' ''project1'' ''a'') = None
   \<and> totalChunks (getStats default_config store3 ''user1'' ''project1'') = 3
   \<and> totalChunks (getStats default_config
                    (clearProject default_config store3 ''user1'' ''project1'')
                    ''user1'' ''project1'') = 0
   \<and> sMembers empty_redis (getProjectIndexKey default_config ''user1'' ''project1'') = []
   \<and> clearProject default_config empty_redis ''user1'' ''project1'' = empty_redis"
proof -
  have h1: "''a'' \<in> set (sMembers store3 (getProjectIndexKey default_config ''user1'' ''project1''))"
    by (simp add: store3_index)
  have h2: "sMembers empty_redis (getProjectIndexKey default_config ''user1'' ''project1'') = []"
    by (simp add: empty_redis_def sMembers_def)
  have h3: "hGetAll store3 (getChunkKey default_config ''user1'' ''project1'' ''a'') \<noteq> None"
    by (simp add: store3_def three_chunks_def chunk_with_def write_chunk_def sAdd_def hSet_def
        empty_redis_def hGetAll_def)
  have h4: "totalChunks (getStats default_config store3 ''user1'' ''project1'') = 3"
    by (simp add: getStats_def Let_def store3_index)
  show ?thesis
    using h1 h2 h3 h4
      C9_clear_then_stats_zero [of store3 default_config "''user1''" "''project1''"]
      C9_clear_then_stats_zero [of empty_redis default_config "''user1''" "''project1''"]
    by simp
qed

section \<open>Worker: a failing job\<close>

lemma outbox_publishResult:
  "outbox (publishResult env w jobId type data)
     = outbox w @ [(broker_ok env (length (outbox w)), results_channel jobId,
                    \<lparr> r_jobId = jobId, r_type = type, r_data = data,
                      r_timestamp = clock env (length (outbox w)) \<rparr>)]"
  by (simp add: publishResult_def)

lemma outbox_streams:
  "\<exists>calls. outbox (foldl (\<lambda>w' d. publishResult env w' jobId Stream d) w ds) = outbox w @ calls
           \<and> (\<forall>c \<in> set calls. r_type (snd (snd c)) = Stream)"
proof (induction ds arbitrary: w)
  case Nil
  then show ?case by simp
next
  case (Cons d ds)
  from Cons[of "publishResult env w jobId Stream d"] obtain calls where
    "outbox (foldl (\<lambda>w' d. publishResult env w' jobId Stream d)
               (publishResult env w jobId Stream d) ds)
       = outbox (publishResult env w jobId Stream d) @ calls"
    "\<forall>c \<in> set calls. r_type (snd (snd c)) = Stream"
    by blast
  then show ?case
    by (intro exI[of _ "(broker_ok env (length (outbox w)), results_channel jobId,
                    \<lparr> r_jobId = jobId, r_type = Stream, r_data = d,
                      r_timestamp = clock env (length (outbox w)) \<rparr>) # calls"])
       (simp add: outbox_publishResult)
qed

lemma run_handler_throws:
  assumes "run_handler env w job s = (Some t, w1)"
  shows "\<exists>calls. outbox w1 = outbox w @ calls \<and> (\<forall>c \<in> set calls. r_type (snd (snd c)) = Stream)"
  using assms outbox_streams[of env "j_jobId job" w "emits s"]
  by (auto simp: run_handler_def Let_def split: option.splits)

lemma dispatch_throws:
  assumes "dispatch env w job = (Some t, w1)"
  shows "\<exists>calls. outbox w1 = outbox w @ calls \<and> (\<forall>c \<in> set calls. r_type (snd (snd c)) = Stream)"
proof -
  consider "dispatch env w job = run_handler env w job (index_run env job)"
    | "dispatch env w job = run_handler env w job (plan_run env job)"
    | "dispatch env w job = run_handler env w job (analysis_run env job)"
    | "w1 = w"
    using assms
    by (auto simp: dispatch_def handleIndex_def handlePlan_def handleErrorAnalysis_def
        split: if_splits)
  then show ?thesis
  proof cases
    case 1 with assms show ?thesis using run_handler_throws by metis
  next
    case 2 with assms show ?thesis using run_handler_throws by metis
  next
    case 3 with assms show ?thesis using run_handler_throws by metis
  next
    case 4 then show ?thesis by simp
  qed
qed

lemma error_results_streams:
  "\<forall>c \<in> set calls. r_type (snd (snd c)) = Stream \<Longrightarrow> error_results jobId calls = []"
  by (auto simp: error_results_def filter_empty_conv)

text \<open>
  Claim C1, as the code has it. When the handling of a job throws a value \<open>e\<close> other
  than \<open>null\<close> or \<open>undefined\<close> (an unknown command throws an \<open>Error\<close> with the
  message \<open>Unknown command: <command>\<close>), \<open>processJob\<close> catches it and returns normally,
  having made since the job arrived only \<open>stream\<close> publishes followed by exactly one
  publish of an \<open>error\<close> result for that \<open>jobId\<close> on \<open>results:<jobId>\<close>, with the
  error's message (or \<open>Unknown error occurred\<close>) and stack. That result reaches the
  channel when the broker accepts the publish; when the publish fails, the failure is
  logged and nothing is published. Either way the subscription callback returns and the
  worker goes on with the messages that follow.
\<close>

theorem C1_failure_becomes_one_error_publish:
  assumes "dispatch env w job = (Some (ErrorObject e), w1)"
  shows "processJob env w job
           = (None, publishResult env w1 (j_jobId job) Error
                      (ErrorData (if err_message e \<noteq> [] then err_message e
                                  else ''Unknown error occurred'') (err_stack e)))
         \<and> (\<exists>streams. outbox (snd (processJob env w job))
                = outbox w @ streams
                  @ [(broker_ok env (length (outbox w1)), results_channel (j_jobId job),
                      \<lparr> r_jobId = j_jobId job, r_type = Error,
                        r_data = ErrorData (if err_message e \<noteq> [] then err_message e
                                            else ''Unknown error occurred'') (err_stack e),
                        r_timestamp = clock env (length (outbox w1)) \<rparr>)]
                \<and> (\<forall>c \<in> set streams. r_type (snd (snd c)) = Stream))
         \<and> length (error_results (j_jobId job)
                     (drop (length (outbox w)) (outbox (snd (processJob env w job))))) = 1
         \<and> length (error_results (j_jobId job)
                     (filter fst (drop (length (outbox w)) (outbox (snd (processJob env w job))))))
             = (if broker_ok env (length (outbox w1)) then 1 else 0)
         \<and> on_message env w (Some job) = snd (processJob env w job)
         \<and> worker_run env w (Some job # rest)
             = worker_run env (snd (processJob env w job)) rest
         \<and> (j_command job' \<noteq> ''index'' \<and> j_command job' \<noteq> ''plan''
              \<and> j_command job' \<noteq> ''analyze-error''
            \<longrightarrow> dispatch env w job'
                  = (Some (ErrorObject
                             \<lparr> err_message = ''Unknown command: '' @ j_command job',
                               err_stack = Some (stack_trace env
                                                   (''Unknown command: '' @ j_command job')) \<rparr>),
                     w))"
proof -
  let ?m = "\<lparr> r_jobId = j_jobId job, r_type = Error,
               r_data = ErrorData (if err_message e \<noteq> [] then err_message e
                                   else ''Unknown error occurred'') (err_stack e),
               r_timestamp = clock env (length (outbox w1)) \<rparr>"
  let ?c = "(broker_ok env (length (outbox w1)), results_channel (j_jobId job), ?m)"
  have pj: "processJob env w job
           = (None, publishResult env w1 (j_jobId job) Error
                      (ErrorData (if err_message e \<noteq> [] then err_message e
                                  else ''Unknown error occurred'') (err_stack e)))"
    using assms by (simp add: processJob_def publishError_def)
  from dispatch_throws[OF assms] obtain streams where
    s: "outbox w1 = outbox w @ streams" "\<forall>c \<in> set streams. r_type (snd (snd c)) = Stream"
    by blast
  have ob: "outbox (snd (processJob env w job)) = outbox w @ streams @ [?c]"
    using pj s(1) by (simp add: outbox_publishResult)
  have new: "drop (length (outbox w)) (outbox (snd (processJob env w job))) = streams @ [?c]"
    using ob by simp
  have none: "error_results (j_jobId job) streams = []"
    using s(2) by (rule error_results_streams)
  have none': "error_results (j_jobId job) (filter fst streams) = []"
    using s(2) by (intro error_results_streams) simp
  have one: "length (error_results (j_jobId job)
                     (drop (length (outbox w)) (outbox (snd (processJob env w job))))) = 1"
    using none unfolding new by (simp add: error_results_def)
  have acc: "length (error_results (j_jobId job)
                     (filter fst (drop (length (outbox w)) (outbox (snd (processJob env w job))))))
             = (if broker_ok env (length (outbox w1)) then 1 else 0)"
    using none' unfolding new by (simp add: error_results_def)
  have unk: "j_command job' \<noteq> ''index'' \<and> j_command job' \<noteq> ''plan''
              \<and> j_command job' \<noteq> ''analyze-error''
            \<longrightarrow> dispatch env w job'
                  = (Some (ErrorObject
                             \<lparr> err_message = ''Unknown command: '' @ j_command job',
                               err_stack = Some (stack_trace env
                                                   (''Unknown command: '' @ j_command job')) \<rparr>),
                     w)"
    by (simp add: dispatch_def)
  have ex: "\<exists>streams. outbox (snd (processJob env w job)) = outbox w @ streams @ [?c]
                \<and> (\<forall>c \<in> set streams. r_type (snd (snd c)) = Stream)"
    using ob s(2) by blast
  show ?thesis
    using pj ex one acc unk by (simp add: on_message_def worker_run_def)
qed

lemma analyze_throws:
  "dispatch env_up idle_worker job_analyze
     = (Some (ErrorObject \<lparr> err_message = ''Failed to parse error input'',
                            err_stack = Some ''Error: Failed to parse error input'' \<rparr>),
        publishResult env_up idle_worker ''j2'' Stream (Data ''step 1''))"
  by (simp add: dispatch_def handleErrorAnalysis_def run_handler_def job_analyze_def
      job_unknown_def env_up_def failing_script_def)

theorem C1_failure_becomes_one_error_publish_witness:
  "dispatch env_up idle_worker job_analyze
     = (Some (ErrorObject \<lparr> err_message = ''Failed to parse error input'',
                            err_stack = Some ''Error: Failed to parse error input'' \<rparr>),
        publishResult env_up idle_worker ''j2'' Stream (Data ''step 1''))
   \<and> map (\<lambda>(channel, m). (channel, r_type m, r_data m))
         (published (worker_run env_up idle_worker [Some job_analyze, Some job_unknown]))
       = [(''results:j2'', Stream, Data ''step 1''),
          (''results:j2'', Error,
           ErrorData ''Failed to parse error input'' (Some ''Error: Failed to parse error input'')),
          (''results:j1'', Error,
           ErrorData ''Unknown command: deploy'' (Some ''Error: Unknown command: deploy''))]"
proof -
  note c1 = C1_failure_becomes_one_error_publish [OF analyze_throws,
      where rest = "[Some job_unknown]" and job' = job_unknown]
  have run: "worker_run env_up idle_worker [Some job_analyze, Some job_unknown]
               = worker_run env_up (snd (processJob env_up idle_worker job_analyze))
                   [Some job_unknown]"
    using c1 by blast
  have pj: "snd (processJob env_up idle_worker job_analyze)
              = publishResult env_up (publishResult env_up idle_worker ''j2'' Stream (Data ''step 1''))
                  ''j2'' Error (ErrorData ''Failed to parse error input''
                                 (Some ''Error: Failed to parse error input''))"
    using c1 by (simp add: job_analyze_def)
  show ?thesis
    unfolding run pj
    by (simp add: analyze_throws)
       (simp add: worker_run_def on_message_def processJob_def dispatch_def publishError_def
         publishResult_def published_def job_unknown_def env_up_def idle_worker_def
         results_channel_def)
qed

text \<open>
  The broker rejects every publish. The job with the unknown command and the job whose
  analysis throws both end with one attempt to publish an \<open>error\<close> result, and no
  result at all is published for them; the worker has gone on from the first job to
  the second.
\<close>

theorem C1_no_error_result_when_publish_fails:
  "published (worker_run env_down idle_worker [Some job_unknown, Some job_analyze]) = []
   \<and> map (\<lambda>(ok, channel, m). (ok, channel, r_type m))
         (outbox (worker_run env_down idle_worker [Some job_unknown, Some job_analyze]))
       = [(False, ''results:j1'', Error), (False, ''results:j2'', Stream),
          (False, ''results:j2'', Error)]"
  by (simp add: worker_run_def on_message_def processJob_def dispatch_def publishError_def
      handleErrorAnalysis_def run_handler_def publishResult_def published_def job_unknown_def
      job_analyze_def env_down_def env_up_def failing_script_def idle_worker_def
      results_channel_def)

text \<open>
  A thrown \<open>null\<close> or \<open>undefined\<close> is the one case in which the \<open>catch\<close> of
  \<open>processJob\<close> itself throws (reading \<open>error.message\<close>): no \<open>error\<close> result is
  published, the exception is logged by the subscription callback, and the worker goes
  on all the same.
\<close>

lemma nullish_throw_is_logged:
  assumes "dispatch env w job = (Some Nullish, w1)"
  shows "processJob env w job = (Some (ErrorObject (type_error env)), w1)
         \<and> on_message env w (Some job) = w1
         \<and> worker_run env w (Some job # rest) = worker_run env w1 rest"
  using assms by (simp add: processJob_def publishError_def on_message_def worker_run_def)

end
